theory Spec2Isabelle
  imports Main "HOL-Library.Signed_Division"
begin

section \<open>The browser SIP phone client (browser\_client/sip-phone.js)\<close>

text \<open>
  The class \<open>SIPPhone\<close> keeps a handful of flags (\<open>isRegistered\<close>, \<open>isInCall\<close>,
  \<open>hasIncomingCall\<close>, ...), talks to a signalling server over one WebSocket, and
  paints the page. The embedding is a state record with three groups of fields: the
  fields of the object (\<open>this.x\<close>), the properties of the page elements the object
  writes and reads, and the part of the browser the object uses (sockets, timers,
  clock, local storage). Every method is a function from state to state; a method
  that can throw returns a completion carrying the state at the point of the throw.
\<close>

subsection \<open>JavaScript values\<close>

text \<open>
  Values that come out of \<open>JSON.parse\<close>, plus \<open>undefined\<close>. Numbers are restricted
  to integers. Strings are lists of 8-bit characters. An object is the list of its own
  properties, the first binding of a name being the one that is read.
\<close>

datatype jsval =
    JUndefined
  | JNull
  | JBool bool
  | JNum int
  | JStr string
  | JArr "jsval list"
  | JObj "(string \<times> jsval) list"

text \<open>ToBoolean, as used by \<open>if (v)\<close>, \<open>!v\<close> and \<open>a || b\<close>.\<close>

fun truthy :: "jsval \<Rightarrow> bool" where
  "truthy JUndefined = False"
| "truthy JNull = False"
| "truthy (JBool b) = b"
| "truthy (JNum n) = (n \<noteq> 0)"
| "truthy (JStr s) = (s \<noteq> [])"
| "truthy (JArr xs) = True"
| "truthy (JObj kvs) = True"

text \<open>\<open>a || b\<close> on values.\<close>

definition js_or :: "jsval \<Rightarrow> jsval \<Rightarrow> jsval" where
  "js_or a b = (if truthy a then a else b)"

datatype exn = SyntaxError | TypeError

text \<open>
  The value of \<open>v.k\<close> when the read does not throw, for the property names the
  program uses (none of them is defined on a prototype): the own property of an
  object, \<open>undefined\<close> otherwise.
\<close>

fun lookup_prop :: "jsval \<Rightarrow> string \<Rightarrow> jsval" where
  "lookup_prop (JObj kvs) k = (case map_of kvs k of Some v \<Rightarrow> v | None \<Rightarrow> JUndefined)"
| "lookup_prop v k = JUndefined"

text \<open>\<open>v.k\<close>: reading a property of \<open>undefined\<close> or \<open>null\<close> throws a TypeError (\<open>None\<close>).\<close>

definition member :: "jsval \<Rightarrow> string \<Rightarrow> jsval option" where
  "member v k = (if v = JUndefined \<or> v = JNull then None else Some (lookup_prop v k))"

text \<open>Decimal digits of a natural number, and \<open>Number.prototype.toString\<close> on integers.\<close>

fun dec :: "nat \<Rightarrow> string" where
  "dec n = (if n < 10 then [''0123456789'' ! n] else dec (n div 10) @ [''0123456789'' ! (n mod 10)])"

definition int_toString :: "int \<Rightarrow> string" where
  "int_toString i = (if i < 0 then CHR ''-'' # dec (nat (- i)) else dec (nat i))"

text \<open>\<open>String(v)\<close>, the conversion applied when a value is assigned to \<open>input.value\<close>.\<close>

fun join_comma :: "string list \<Rightarrow> string" where
  "join_comma [] = []"
| "join_comma [x] = x"
| "join_comma (x # y # ys) = x @ '','' @ join_comma (y # ys)"

fun toStr :: "jsval \<Rightarrow> string" where
  "toStr JUndefined = ''undefined''"
| "toStr JNull = ''null''"
| "toStr (JBool b) = (if b then ''true'' else ''false'')"
| "toStr (JNum n) = int_toString n"
| "toStr (JStr s) = s"
| "toStr (JArr xs) =
     join_comma (map (\<lambda>x. if x = JUndefined \<or> x = JNull then [] else toStr x) xs)"
| "toStr (JObj kvs) = ''[object Object]''"

text \<open>
  \<open>String.prototype.trim\<close> and \<open>parseInt\<close> without a radix (\<open>None\<close> is NaN): white
  space is skipped, then a sign, then \<open>0x\<close> selects base 16, then the longest run of
  digits is read. The result is exact (a double rounds beyond 2 to the power 53).
\<close>

definition isWhiteSpace :: "char \<Rightarrow> bool" where
  "isWhiteSpace c = (c = CHR 0x09 \<or> c = CHR 0x0A \<or> c = CHR 0x0B \<or> c = CHR 0x0C \<or>
     c = CHR 0x0D \<or> c = CHR '' '' \<or> c = CHR 0xA0)"

definition trim :: "string \<Rightarrow> string" where
  "trim s = rev (dropWhile isWhiteSpace (rev (dropWhile isWhiteSpace s)))"

definition digit :: "nat \<Rightarrow> char \<Rightarrow> nat option" where
  "digit radix c =
     (let n = (of_char c :: nat);
          d = (if 48 \<le> n \<and> n \<le> 57 then Some (n - 48)
               else if 97 \<le> n \<and> n \<le> 122 then Some (n - 87)
               else if 65 \<le> n \<and> n \<le> 90 then Some (n - 55)
               else None)
      in case d of None \<Rightarrow> None | Some v \<Rightarrow> if v < radix then Some v else None)"

definition parseInt :: "string \<Rightarrow> int option" where
  "parseInt str =
     (let s1 = dropWhile isWhiteSpace str;
          neg = (take 1 s1 = ''-'');
          s2 = (if take 1 s1 = ''+'' \<or> take 1 s1 = ''-'' then drop 1 s1 else s1);
          hex = (take 2 s2 = ''0x'' \<or> take 2 s2 = ''0X'');
          radix = (if hex then 16 else 10);
          s3 = (if hex then drop 2 s2 else s2);
          ds = takeWhile (\<lambda>c. digit radix c \<noteq> None) s3;
          n = foldl (\<lambda>a c. case digit radix c of Some d \<Rightarrow> a * radix + d | None \<Rightarrow> a) 0 ds
      in if ds = [] then None else Some (if neg then - int n else int n))"

text \<open>\<open>String.prototype.padStart(2, '0')\<close>.\<close>

definition padStart2 :: "string \<Rightarrow> string" where
  "padStart2 s = replicate (2 - length s) (CHR ''0'') @ s"

subsection \<open>Log lines, page texts, wire messages\<close>

text \<open>
  The program's log lines and page texts are Russian string literals. Each literal is
  a constructor here (named in English, with the source line); a template literal
  carries the interpolated value.
\<close>

datatype level = INFO | WARNING | ERROR | DEBUG

datatype logmsg =
    Initialized                 \<comment> \<open>line 16\<close>
  | WsConnected                 \<comment> \<open>line 91\<close>
  | WsDisconnected              \<comment> \<open>line 102\<close>
  | WsError                     \<comment> \<open>line 111\<close>
  | WsConnectFailed             \<comment> \<open>line 115\<close>
  | Received jsval              \<comment> \<open>line 122, with \<open>data.type\<close>\<close>
  | SuccessMsg jsval            \<comment> \<open>line 150, with \<open>data.payload.message\<close>\<close>
  | ErrorMsg jsval              \<comment> \<open>line 153, with \<open>data.payload.message\<close>\<close>
  | UnknownType jsval           \<comment> \<open>line 156, with \<open>data.type\<close>\<close>
  | ProcessingError exn         \<comment> \<open>line 159, with the caught error\<close>
  | RegisteredOk                \<comment> \<open>line 175\<close>
  | RegistrationReset           \<comment> \<open>line 182\<close>
  | CalleeRinging               \<comment> \<open>line 194\<close>
  | CallEstablished             \<comment> \<open>line 202\<close>
  | CallFinished                \<comment> \<open>line 213\<close>
  | CallError jsval             \<comment> \<open>line 218, with \<open>payload.reason\<close>\<close>
  | WsNotConnected              \<comment> \<open>line 228\<close>
  | FillSettings                \<comment> \<open>line 243\<close>
  | RegisterSent                \<comment> \<open>line 252\<close>
  | UnregisterSent              \<comment> \<open>line 261\<close>
  | EnterNumber                 \<comment> \<open>line 267\<close>
  | Dialing string              \<comment> \<open>line 277, with the number\<close>
  | Answering                   \<comment> \<open>line 286\<close>
  | HangupSent                  \<comment> \<open>line 303\<close>
  | DtmfSent jsval              \<comment> \<open>line 313, with the digit\<close>
  | NoCallForDtmf               \<comment> \<open>line 315\<close>
  | NotRegisteredForMessage     \<comment> \<open>line 321\<close>
  | MessageSending jsval        \<comment> \<open>line 333, with the number\<close>
  | SettingsSaved               \<comment> \<open>line 581\<close>
  | SettingsLoaded              \<comment> \<open>line 599\<close>
  | SettingsLoadFailed          \<comment> \<open>line 606\<close>
  | PhoneStopped                \<comment> \<open>line 616\<close>
  | LogLevelChanged string      \<comment> \<open>line 352, with the level\<close>
  | LogLevelRejected            \<comment> \<open>line 355\<close>
  | LogLevelFailed              \<comment> \<open>line 358\<close>
  | LogsCleared                 \<comment> \<open>line 369\<close>
  | LogsClearRejected           \<comment> \<open>line 372\<close>
  | LogsClearFailed             \<comment> \<open>line 375\<close>

datatype dom_text =
    Value jsval                 \<comment> \<open>a value assigned as it is; \<open>Value (JStr [])\<close> is the empty text\<close>
  | Connected_text              \<comment> \<open>line 490\<close>
  | Disconnected_text           \<comment> \<open>line 493\<close>
  | Registered_text             \<comment> \<open>line 500\<close>
  | Unregistered_text           \<comment> \<open>line 506\<close>
  | Incoming_text               \<comment> \<open>line 399\<close>
  | Connecting_text             \<comment> \<open>line 411\<close>
  | Talking_text                \<comment> \<open>line 421\<close>
  | Ringing_text                \<comment> \<open>line 193\<close>

text \<open>An outgoing message \<open>{type: t, payload: p}\<close>.\<close>

type_synonym wsmsg = "string \<times> jsval"

text \<open>
  An inbound frame, represented by what \<open>JSON.parse\<close> does with it: a SyntaxError, or
  the parsed value.
\<close>

datatype message = Unparseable | Parsed jsval

text \<open>The frame \<open>{"type": t, "payload": p}\<close>.\<close>

definition event :: "string \<Rightarrow> jsval \<Rightarrow> message" where
  "event t p = Parsed (JObj [(''type'', JStr t), (''payload'', p)])"

subsection \<open>The browser\<close>

datatype readyState = CONNECTING | OPEN | CLOSING | CLOSED

text \<open>
  A timer handle as returned by \<open>setInterval\<close> and \<open>setTimeout\<close>: a positive integer
  in the browser, so a handle is always truthy.
\<close>

datatype handle = Handle nat

datatype interval_kind = DurationTick | RingtonePulse

subsection \<open>The state\<close>

record SIPPhone =
  \<comment> \<open>fields of the object, lines 3 to 11, and \<open>ringtoneInterval\<close> (lines 440, 465)\<close>
  websocket :: "nat option"
  isConnected :: bool
  isRegistered :: jsval
  isInCall :: jsval
  hasIncomingCall :: jsval
  callStartTime :: "int option"
  callTimer :: "handle option"
  currentCaller :: jsval
  currentCallState :: string
  ringtoneInterval :: "handle option"
  \<comment> \<open>properties of the page elements of lines 21 to 51\<close>
  connectionStatus_textContent :: dom_text
  connectionStatus_className :: string
  sipStatus_textContent :: dom_text
  sipStatus_className :: string
  callInfo_display :: string
  callInfo_className :: string
  remoteNumber_textContent :: dom_text
  callDuration_textContent :: dom_text
  callStatus_textContent :: dom_text
  answerBtn_disabled :: bool
  hangupBtn_disabled :: bool
  dialBtn_disabled :: bool
  registerBtn_disabled :: bool
  unregisterBtn_disabled :: bool
  phoneNumber_disabled :: bool
  phoneNumber_value :: string
  sipServer_value :: string
  sipPort_value :: string
  sipLogin_value :: string
  sipPassword_value :: string
  sipNumber_value :: string
  logLevel_value :: string
  logContainer :: "(logmsg \<times> level) list"
  \<comment> \<open>the browser\<close>
  sockets :: "readyState list"
  sent :: "(nat \<times> wsmsg) list"
  timeouts :: "handle list"
  intervals :: "(handle \<times> interval_kind) list"
  nextTimerId :: nat
  now :: int
  audioAvailable :: bool
  webSocketAllowed :: bool
  sip_settings :: "jsval option"
  sip_settings_writes :: "jsval list"
  sip_phone_logs :: "(logmsg \<times> level) list"

text \<open>
  \<open>websocket\<close> is a reference into \<open>sockets\<close>, the store of the WebSocket objects this
  page has created (\<open>None\<close> is \<open>null\<close>): the handlers of a replaced socket still
  run on the same object. \<open>callStartTime\<close> is a Date in milliseconds (\<open>None\<close> is
  \<open>null\<close>); \<open>callTimer\<close> and \<open>ringtoneInterval\<close> hold an interval handle (\<open>None\<close> is
  \<open>null\<close> or \<open>undefined\<close>). \<open>sent\<close> lists the messages handed to \<open>send\<close>, with the
  socket; \<open>timeouts\<close> the pending \<open>setTimeout\<close> callbacks (all of them reconnects);
  \<open>intervals\<close> the active \<open>setInterval\<close> callbacks. \<open>sip_settings\<close> is the item of
  that name in localStorage, as the value its JSON text denotes, and
  \<open>sip_settings_writes\<close> the values written to it by \<open>setItem\<close>, oldest first.
  \<open>sip_phone_logs\<close> is the stored log, without the time stamps. The page is assumed to
  hold every element that \<open>initializeElements\<close> looks up.
\<close>

subsection \<open>Browser primitives\<close>

definition readyStateOf :: "SIPPhone \<Rightarrow> nat \<Rightarrow> readyState" where
  \<comment> \<open>a reference outside the store does not occur; it reads as a closed socket\<close>
  "readyStateOf s w = (if w < length (sockets s) then sockets s ! w else CLOSED)"

definition setReadyState :: "nat \<Rightarrow> readyState \<Rightarrow> SIPPhone \<Rightarrow> SIPPhone" where
  "setReadyState w r s = s\<lparr>sockets := (sockets s)[w := r]\<rparr>"

definition setInterval :: "interval_kind \<Rightarrow> SIPPhone \<Rightarrow> handle \<times> SIPPhone" where
  "setInterval k s =
     (Handle (nextTimerId s),
      s\<lparr>intervals := intervals s @ [(Handle (nextTimerId s), k)],
        nextTimerId := Suc (nextTimerId s)\<rparr>)"

definition clearInterval :: "handle \<Rightarrow> SIPPhone \<Rightarrow> SIPPhone" where
  "clearInterval h s = s\<lparr>intervals := filter (\<lambda>p. fst p \<noteq> h) (intervals s)\<rparr>"

definition setTimeout :: "SIPPhone \<Rightarrow> SIPPhone" where
  \<comment> \<open>line 107: the callback is always \<open>connectWebSocket\<close>, the handle is dropped\<close>
  "setTimeout s =
     s\<lparr>timeouts := timeouts s @ [Handle (nextTimerId s)],
       nextTimerId := Suc (nextTimerId s)\<rparr>"

subsection \<open>Logging (lines 533 to 575)\<close>

definition saveLogToStorage :: "logmsg \<Rightarrow> level \<Rightarrow> SIPPhone \<Rightarrow> SIPPhone" where
  "saveLogToStorage m l s =
     (let logs = sip_phone_logs s @ [(m, l)];
          logs' = (if length logs > 1000 then drop (length logs - 500) logs else logs)
      in s\<lparr>sip_phone_logs := logs'\<rparr>)"

definition log :: "logmsg \<Rightarrow> level \<Rightarrow> SIPPhone \<Rightarrow> SIPPhone" where
  "log m l s = saveLogToStorage m l (s\<lparr>logContainer := logContainer s @ [(m, l)]\<rparr>)"

definition loadLogsFromStorage :: "SIPPhone \<Rightarrow> SIPPhone" where
  "loadLogsFromStorage s = s\<lparr>logContainer := logContainer s @ sip_phone_logs s\<rparr>"

subsection \<open>Painting the page (lines 395 to 531)\<close>

definition stopRingtone :: "SIPPhone \<Rightarrow> SIPPhone" where
  "stopRingtone s =
     (case ringtoneInterval s of
        Some h \<Rightarrow> (clearInterval h s)\<lparr>ringtoneInterval := None\<rparr>
      | None \<Rightarrow> s)"

definition playRingtone :: "SIPPhone \<Rightarrow> SIPPhone" where
  \<comment> \<open>creating the AudioContext can throw; the catch only writes to the console\<close>
  "playRingtone s =
     (if audioAvailable s
      then (case setInterval RingtonePulse s of (h, s') \<Rightarrow> s'\<lparr>ringtoneInterval := Some h\<rparr>)
      else s)"

definition showIncomingCall :: "jsval \<Rightarrow> SIPPhone \<Rightarrow> SIPPhone" where
  "showIncomingCall callerNumber s =
     playRingtone
       (s\<lparr>callInfo_display := ''block'',
          callInfo_className := ''call-info incoming'',
          remoteNumber_textContent := Value callerNumber,
          callStatus_textContent := Incoming_text,
          answerBtn_disabled := False,
          hangupBtn_disabled := False\<rparr>)"

definition showOutgoingCall :: "string \<Rightarrow> SIPPhone \<Rightarrow> SIPPhone" where
  "showOutgoingCall number s =
     s\<lparr>callInfo_display := ''block'',
       callInfo_className := ''call-info'',
       remoteNumber_textContent := Value (JStr number),
       callStatus_textContent := Connecting_text,
       answerBtn_disabled := True,
       hangupBtn_disabled := False\<rparr>"

definition updateCallInfo :: "SIPPhone \<Rightarrow> SIPPhone" where
  "updateCallInfo s =
     (if truthy (isInCall s)
      then s\<lparr>callInfo_display := ''block'',
             callInfo_className := ''call-info'',
             remoteNumber_textContent :=
               Value (js_or (currentCaller s) (JStr (phoneNumber_value s))),
             callStatus_textContent := Talking_text\<rparr>
      else if truthy (hasIncomingCall s) then showIncomingCall (currentCaller s) s
      else s)"

definition hideCallInfo :: "SIPPhone \<Rightarrow> SIPPhone" where
  "hideCallInfo s =
     stopRingtone
       (s\<lparr>callInfo_display := ''none'',
          remoteNumber_textContent := Value (JStr []),
          callDuration_textContent := Value (JStr []),
          callStatus_textContent := Value (JStr [])\<rparr>)"

definition startCallTimer :: "SIPPhone \<Rightarrow> SIPPhone" where
  "startCallTimer s =
     (case setInterval DurationTick (s\<lparr>callStartTime := Some (now s)\<rparr>) of
        (h, s') \<Rightarrow> s'\<lparr>callTimer := Some h\<rparr>)"

text \<open>
  The callback of lines 471 to 477. \<open>now - this.callStartTime\<close> reads \<open>null\<close> as 0;
  \<open>Math.floor\<close> of a quotient is \<open>div\<close>, and \<open>%\<close> takes the sign of the dividend.
\<close>

definition durationTick :: "SIPPhone \<Rightarrow> SIPPhone" where
  "durationTick s =
     (let duration = (now s - (case callStartTime s of Some t \<Rightarrow> t | None \<Rightarrow> 0)) div 1000;
          minutes = duration div 60;
          seconds = duration smod 60
      in s\<lparr>callDuration_textContent :=
             Value (JStr (padStart2 (int_toString minutes) @ '':'' @
                          padStart2 (int_toString seconds)))\<rparr>)"

definition stopCallTimer :: "SIPPhone \<Rightarrow> SIPPhone" where
  "stopCallTimer s =
     (case callTimer s of
        Some h \<Rightarrow> (clearInterval h s)\<lparr>callTimer := None\<rparr>
      | None \<Rightarrow> s)
     \<lparr>callDuration_textContent := Value (JStr [])\<rparr>"

definition updateConnectionStatus :: "SIPPhone \<Rightarrow> SIPPhone" where
  "updateConnectionStatus s =
     (if isConnected s
      then s\<lparr>connectionStatus_textContent := Connected_text,
             connectionStatus_className := ''status connected''\<rparr>
      else s\<lparr>connectionStatus_textContent := Disconnected_text,
             connectionStatus_className := ''status disconnected''\<rparr>)"

definition updateSIPStatus :: "SIPPhone \<Rightarrow> SIPPhone" where
  "updateSIPStatus s =
     (if truthy (isRegistered s)
      then s\<lparr>sipStatus_textContent := Registered_text,
             sipStatus_className := ''sip-status registered'',
             registerBtn_disabled := True,
             unregisterBtn_disabled := False,
             dialBtn_disabled := False\<rparr>
      else s\<lparr>sipStatus_textContent := Unregistered_text,
             sipStatus_className := ''sip-status unregistered'',
             registerBtn_disabled := False,
             unregisterBtn_disabled := True,
             dialBtn_disabled := True\<rparr>)"

definition updateCallControls :: "SIPPhone \<Rightarrow> SIPPhone" where
  "updateCallControls s =
     (if truthy (isInCall s)
      then s\<lparr>answerBtn_disabled := True,
             hangupBtn_disabled := False,
             dialBtn_disabled := True,
             phoneNumber_disabled := True\<rparr>
      else if truthy (hasIncomingCall s)
      then s\<lparr>answerBtn_disabled := False,
             hangupBtn_disabled := False,
             dialBtn_disabled := True,
             phoneNumber_disabled := True\<rparr>
      else s\<lparr>answerBtn_disabled := True,
             hangupBtn_disabled := True,
             dialBtn_disabled := (\<not> truthy (isRegistered s)),
             phoneNumber_disabled := (\<not> truthy (isRegistered s))\<rparr>)"

subsection \<open>Settings (lines 380 to 393 and 577 to 608)\<close>

record settings =
  sip_server :: string
  sip_port :: int
  login :: string
  password :: string
  number :: string

definition getSIPSettings :: "SIPPhone \<Rightarrow> settings" where
  "getSIPSettings s =
     \<lparr>sip_server = trim (sipServer_value s),
      sip_port = (case parseInt (sipPort_value s) of
                    None \<Rightarrow> 5060
                  | Some n \<Rightarrow> if n = 0 then 5060 else n),
      login = trim (sipLogin_value s),
      password = trim (sipPassword_value s),
      number = trim (sipNumber_value s)\<rparr>"

definition validateSIPSettings :: "settings \<Rightarrow> bool" where
  \<comment> \<open>the truthiness of the \<open>&&\<close> chain, which is all the caller uses\<close>
  "validateSIPSettings st =
     (sip_server st \<noteq> [] \<and> sip_port st \<noteq> 0 \<and> login st \<noteq> [] \<and> password st \<noteq> [] \<and>
      number st \<noteq> [])"

text \<open>The settings object as it goes on the wire and, with \<open>log_level\<close>, into storage.\<close>

definition settings_fields :: "settings \<Rightarrow> (string \<times> jsval) list" where
  "settings_fields st =
     [(''sip_server'', JStr (sip_server st)),
      (''sip_port'', JNum (sip_port st)),
      (''login'', JStr (login st)),
      (''password'', JStr (password st)),
      (''number'', JStr (number st))]"

definition saveSettings :: "SIPPhone \<Rightarrow> SIPPhone" where
  "saveSettings s =
     (let v = JObj (settings_fields (getSIPSettings s) @
                    [(''log_level'', JStr (logLevel_value s))])
      in log SettingsSaved INFO
           (s\<lparr>sip_settings := Some v, sip_settings_writes := sip_settings_writes s @ [v]\<rparr>))"

text \<open>
  \<open>loadSettings\<close>: the stored item is read as the value its text denotes (an item that
  is not JSON is not modelled). A stored \<open>null\<close> makes the first property read throw;
  the catch logs and skips the loading of the stored log.
\<close>

definition loadSettings :: "SIPPhone \<Rightarrow> SIPPhone" where
  "loadSettings s =
     (case sip_settings s of
        None \<Rightarrow> loadLogsFromStorage s
      | Some saved \<Rightarrow>
          if saved = JUndefined \<or> saved = JNull then log SettingsLoadFailed ERROR s
          else
            let s1 = s\<lparr>sipServer_value := toStr (js_or (lookup_prop saved ''sip_server'') (JStr [])),
                       sipPort_value := toStr (js_or (lookup_prop saved ''sip_port'') (JStr ''5060'')),
                       sipLogin_value := toStr (js_or (lookup_prop saved ''login'') (JStr [])),
                       sipPassword_value := toStr (js_or (lookup_prop saved ''password'') (JStr [])),
                       sipNumber_value := toStr (js_or (lookup_prop saved ''number'') (JStr []))\<rparr>;
                s2 = (if truthy (lookup_prop saved ''log_level'')
                      then s1\<lparr>logLevel_value := toStr (lookup_prop saved ''log_level'')\<rparr>
                      else s1)
            in loadLogsFromStorage (log SettingsLoaded INFO s2))"

subsection \<open>Inbound events (lines 119 to 222)\<close>

text \<open>
  How a block of statements ends: normally, or by a throw, with the state at that
  point (assignments made before the throw stay).
\<close>

datatype completion = Normal SIPPhone | Throw exn SIPPhone

definition handleStatusUpdate :: "jsval \<Rightarrow> SIPPhone \<Rightarrow> completion" where
  "handleStatusUpdate payload s =
     (case member payload ''sip_registered'' of
        None \<Rightarrow> Throw TypeError s
      | Some v1 \<Rightarrow>
          (let s1 = s\<lparr>isRegistered := v1\<rparr> in
           (case member payload ''active_call'' of
              None \<Rightarrow> Throw TypeError s1
            | Some v2 \<Rightarrow>
                (let s2 = s1\<lparr>isInCall := v2\<rparr> in
                 (case member payload ''has_incoming'' of
                    None \<Rightarrow> Throw TypeError s2
                  | Some v3 \<Rightarrow>
                      (let s3 = s2\<lparr>hasIncomingCall := v3\<rparr> in
                       (case member payload ''caller_number'' of
                          None \<Rightarrow> Throw TypeError s3
                        | Some v4 \<Rightarrow>
                            Normal (updateCallInfo (updateCallControls (updateSIPStatus
                                      (s3\<lparr>currentCaller := v4\<rparr>)))))))))))"

definition handleSIPRegistered :: "jsval \<Rightarrow> SIPPhone \<Rightarrow> SIPPhone" where
  "handleSIPRegistered payload s =
     saveSettings (updateSIPStatus (log RegisteredOk INFO (s\<lparr>isRegistered := JBool True\<rparr>)))"

definition handleSIPUnregistered :: "jsval \<Rightarrow> SIPPhone \<Rightarrow> SIPPhone" where
  "handleSIPUnregistered payload s =
     updateSIPStatus (log RegistrationReset WARNING (s\<lparr>isRegistered := JBool False\<rparr>))"

definition handleIncomingCall :: "jsval \<Rightarrow> SIPPhone \<Rightarrow> completion" where
  "handleIncomingCall payload s =
     (let s1 = s\<lparr>hasIncomingCall := JBool True\<rparr> in
      (case member payload ''caller_number'' of
         None \<Rightarrow> Throw TypeError s1
       | Some c \<Rightarrow>
           (let s2 = s1\<lparr>currentCaller := c\<rparr> in
            (case member payload ''caller_number'' of
               None \<Rightarrow> Throw TypeError s2
             | Some c' \<Rightarrow> Normal (showIncomingCall c' s2)))))"

definition handleCallRinging :: "jsval \<Rightarrow> SIPPhone \<Rightarrow> SIPPhone" where
  "handleCallRinging payload s =
     log CalleeRinging INFO (s\<lparr>callStatus_textContent := Ringing_text\<rparr>)"

definition handleCallAnswered :: "jsval \<Rightarrow> SIPPhone \<Rightarrow> SIPPhone" where
  "handleCallAnswered payload s =
     updateCallInfo (updateCallControls (log CallEstablished INFO
       (startCallTimer (stopRingtone
          (s\<lparr>isInCall := JBool True, hasIncomingCall := JBool False\<rparr>)))))"

definition handleCallEnded :: "jsval \<Rightarrow> SIPPhone \<Rightarrow> SIPPhone" where
  "handleCallEnded payload s =
     updateCallControls (log CallFinished INFO
       (hideCallInfo (stopRingtone (stopCallTimer
          (s\<lparr>isInCall := JBool False, hasIncomingCall := JBool False\<rparr>)))))"

definition handleCallFailed :: "jsval \<Rightarrow> SIPPhone \<Rightarrow> completion" where
  "handleCallFailed payload s =
     (case member payload ''reason'' of
        None \<Rightarrow> Throw TypeError s
      | Some r \<Rightarrow>
          Normal (updateCallControls (hideCallInfo (stopRingtone
                    (log (CallError r) ERROR s)))))"

text \<open>The body of the \<open>try\<close> of \<open>handleWebSocketMessage\<close>; \<open>===\<close> against a string literal.\<close>

definition tryHandle :: "message \<Rightarrow> SIPPhone \<Rightarrow> completion" where
  "tryHandle message s =
     (case message of
        Unparseable \<Rightarrow> Throw SyntaxError s
      | Parsed data \<Rightarrow>
          (case member data ''type'' of
             None \<Rightarrow> Throw TypeError s
           | Some t \<Rightarrow>
               let s1 = log (Received t) DEBUG s;
                   payload = lookup_prop data ''payload''
               in if t = JStr ''status_update'' then handleStatusUpdate payload s1
                  else if t = JStr ''sip_registered'' then Normal (handleSIPRegistered payload s1)
                  else if t = JStr ''sip_unregistered'' then Normal (handleSIPUnregistered payload s1)
                  else if t = JStr ''incoming_call'' then handleIncomingCall payload s1
                  else if t = JStr ''call_ringing'' then Normal (handleCallRinging payload s1)
                  else if t = JStr ''call_answered'' then Normal (handleCallAnswered payload s1)
                  else if t = JStr ''call_ended'' then Normal (handleCallEnded payload s1)
                  else if t = JStr ''call_failed'' then handleCallFailed payload s1
                  else if t = JStr ''success'' then
                    (case member payload ''message'' of
                       None \<Rightarrow> Throw TypeError s1
                     | Some m \<Rightarrow> Normal (log (SuccessMsg m) INFO s1))
                  else if t = JStr ''error'' then
                    (case member payload ''message'' of
                       None \<Rightarrow> Throw TypeError s1
                     | Some m \<Rightarrow> Normal (log (ErrorMsg m) ERROR s1))
                  else Normal (log (UnknownType t) WARNING s1)))"

definition handleWebSocketMessage :: "message \<Rightarrow> SIPPhone \<Rightarrow> SIPPhone" where
  "handleWebSocketMessage message s =
     (case tryHandle message s of
        Normal s' \<Rightarrow> s'
      | Throw e s' \<Rightarrow> log (ProcessingError e) ERROR s')"

subsection \<open>Commands (lines 224 to 335)\<close>

definition sendWebSocketMessage :: "wsmsg \<Rightarrow> SIPPhone \<Rightarrow> SIPPhone" where
  "sendWebSocketMessage msg s =
     (case websocket s of
        None \<Rightarrow> log WsNotConnected ERROR s
      | Some w \<Rightarrow>
          if readyStateOf s w = OPEN then s\<lparr>sent := sent s @ [(w, msg)]\<rparr>
          else log WsNotConnected ERROR s)"

definition requestStatus :: "SIPPhone \<Rightarrow> SIPPhone" where
  "requestStatus s = sendWebSocketMessage (''get_status'', JObj []) s"

definition registerSIP :: "SIPPhone \<Rightarrow> SIPPhone" where
  "registerSIP s =
     (let settings = getSIPSettings s in
      if \<not> validateSIPSettings settings then log FillSettings WARNING s
      else log RegisterSent INFO
             (sendWebSocketMessage (''sip_register'', JObj (settings_fields settings)) s))"

definition unregisterSIP :: "SIPPhone \<Rightarrow> SIPPhone" where
  "unregisterSIP s =
     log UnregisterSent INFO (sendWebSocketMessage (''sip_unregister'', JObj []) s)"

definition makeCall :: "SIPPhone \<Rightarrow> SIPPhone" where
  "makeCall s =
     (let number = trim (phoneNumber_value s) in
      if number = [] then log EnterNumber WARNING s
      else log (Dialing number) INFO
             (showOutgoingCall number
                (sendWebSocketMessage
                   (''sip_make_call'', JObj [(''number'', JStr number)]) s)))"

definition answerCall :: "SIPPhone \<Rightarrow> SIPPhone" where
  "answerCall s =
     log Answering INFO (sendWebSocketMessage (''sip_answer_call'', JObj []) s)"

definition hangupCall :: "SIPPhone \<Rightarrow> SIPPhone" where
  "hangupCall s =
     (let s1 = sendWebSocketMessage (''sip_hangup_call'', JObj []) s;
          s2 = s1\<lparr>isInCall := JBool False, hasIncomingCall := JBool False\<rparr>
      in log HangupSent INFO (updateCallControls (stopCallTimer (stopRingtone s2))))"

definition sendDTMF :: "jsval \<Rightarrow> SIPPhone \<Rightarrow> SIPPhone" where
  "sendDTMF d s =
     (if truthy (isInCall s)
      then log (DtmfSent d) INFO
             (sendWebSocketMessage (''sip_send_dtmf'', JObj [(''digit'', d)]) s)
      else log NoCallForDtmf WARNING s)"

definition sendMessage :: "jsval \<Rightarrow> jsval \<Rightarrow> SIPPhone \<Rightarrow> bool \<times> SIPPhone" where
  "sendMessage toNumber content s =
     (if \<not> truthy (isRegistered s) then (False, log NotRegisteredForMessage WARNING s)
      else (True,
            log (MessageSending toNumber) INFO
              (sendWebSocketMessage
                 (''sip_send_message'',
                  JObj [(''to_number'', toNumber), (''content'', content)]) s)))"

text \<open>The commands that go through \<open>sendWebSocketMessage\<close>.\<close>

datatype command =
    RequestStatus
  | RegisterSIP
  | UnregisterSIP
  | MakeCall
  | AnswerCall
  | HangupCall
  | SendDTMF jsval
  | SendMessage jsval jsval

fun issue :: "command \<Rightarrow> SIPPhone \<Rightarrow> SIPPhone" where
  "issue RequestStatus s = requestStatus s"
| "issue RegisterSIP s = registerSIP s"
| "issue UnregisterSIP s = unregisterSIP s"
| "issue MakeCall s = makeCall s"
| "issue AnswerCall s = answerCall s"
| "issue HangupCall s = hangupCall s"
| "issue (SendDTMF d) s = sendDTMF d s"
| "issue (SendMessage t c) s = snd (sendMessage t c s)"

text \<open>
  \<open>changeLogLevel\<close> and \<open>clearLogs\<close> from the point where the awaited \<open>fetch\<close>
  settles: the response is ok, is not ok, or the request failed.
\<close>

datatype fetch_result = ResponseOk | ResponseNotOk | FetchFailed

definition changeLogLevel :: "string \<Rightarrow> fetch_result \<Rightarrow> SIPPhone \<Rightarrow> SIPPhone" where
  "changeLogLevel logLevel r s =
     (case r of
        ResponseOk \<Rightarrow> saveSettings (log (LogLevelChanged logLevel) INFO s)
      | ResponseNotOk \<Rightarrow> log LogLevelRejected ERROR s
      | FetchFailed \<Rightarrow> log LogLevelFailed ERROR s)"

definition clearLogs :: "fetch_result \<Rightarrow> SIPPhone \<Rightarrow> SIPPhone" where
  "clearLogs r s =
     (case r of
        ResponseOk \<Rightarrow> (log LogsCleared INFO s)\<lparr>logContainer := []\<rparr>
      | ResponseNotOk \<Rightarrow> log LogsClearRejected ERROR s
      | FetchFailed \<Rightarrow> log LogsClearFailed ERROR s)"

subsection \<open>The connection (lines 85 to 117) and teardown (lines 610 to 617)\<close>

definition connectWebSocket :: "SIPPhone \<Rightarrow> SIPPhone" where
  \<comment> \<open>\<open>new WebSocket\<close> can throw; the catch logs\<close>
  "connectWebSocket s =
     (if webSocketAllowed s
      then s\<lparr>sockets := sockets s @ [CONNECTING], websocket := Some (length (sockets s))\<rparr>
      else log WsConnectFailed ERROR s)"

definition onopen :: "SIPPhone \<Rightarrow> SIPPhone" where
  "onopen s =
     requestStatus (updateConnectionStatus ((log WsConnected INFO s)\<lparr>isConnected := True\<rparr>))"

definition onclose :: "SIPPhone \<Rightarrow> SIPPhone" where
  "onclose s =
     setTimeout (updateConnectionStatus ((log WsDisconnected WARNING s)\<lparr>isConnected := False\<rparr>))"

definition onerror :: "SIPPhone \<Rightarrow> SIPPhone" where
  "onerror s = log WsError ERROR s"

text \<open>\<open>WebSocket.close()\<close>: starts the closing handshake unless already closing or closed.\<close>

definition close :: "nat \<Rightarrow> SIPPhone \<Rightarrow> SIPPhone" where
  "close w s =
     (if readyStateOf s w = CLOSING \<or> readyStateOf s w = CLOSED then s
      else setReadyState w CLOSING s)"

definition destroy :: "SIPPhone \<Rightarrow> SIPPhone" where
  "destroy s =
     log PhoneStopped INFO
       (stopRingtone (stopCallTimer
          (case websocket s of Some w \<Rightarrow> close w s | None \<Rightarrow> s)))"

subsection \<open>The constructor (lines 2 to 17)\<close>

definition initializeEventListeners :: "SIPPhone \<Rightarrow> SIPPhone" where
  \<comment> \<open>the listeners it registers are the actions of \<open>step\<close> below\<close>
  "initializeEventListeners s = loadSettings s"

text \<open>The argument is the page and the browser as the constructor finds them.\<close>

definition newSIPPhone :: "SIPPhone \<Rightarrow> SIPPhone" where
  "newSIPPhone e =
     log Initialized INFO
       (connectWebSocket
          (initializeEventListeners
             (e\<lparr>websocket := None,
                isConnected := False,
                isRegistered := JBool False,
                isInCall := JBool False,
                hasIncomingCall := JBool False,
                callStartTime := None,
                callTimer := None,
                currentCaller := JStr [],
                currentCallState := ''IDLE'',
                ringtoneInterval := None\<rparr>)))"

subsection \<open>The event loop\<close>

text \<open>
  What can happen to a phone once constructed: a method is invoked, the user edits a
  field of the page, a socket of the store opens, delivers a frame, reports an error or
  closes, a timer fires, the clock advances. A socket event that the socket's state
  does not allow, and a timer that is not pending, change nothing. The handlers of
  every socket are the closures of lines 90 to 112, which all act on the same object.
\<close>

datatype action =
    Invoke command
  | Destroy
  | SelectLogLevel string
  | LogLevelReply string fetch_result
  | ClearLogsReply fetch_result
  | TypePhoneNumber string
  | TypeSipServer string
  | TypeSipPort string
  | TypeSipLogin string
  | TypeSipPassword string
  | TypeSipNumber string
  | SocketOpens nat
  | SocketReceives nat message
  | SocketErrors nat
  | SocketCloses nat
  | TimeoutFires handle
  | IntervalFires handle
  | ClockAdvances nat

fun step :: "action \<Rightarrow> SIPPhone \<Rightarrow> SIPPhone" where
  "step (Invoke c) s = issue c s"
| "step Destroy s = destroy s"
| "step (SelectLogLevel v) s = s\<lparr>logLevel_value := v\<rparr>"
| "step (LogLevelReply v r) s = changeLogLevel v r s"
| "step (ClearLogsReply r) s = clearLogs r s"
| "step (TypePhoneNumber v) s = s\<lparr>phoneNumber_value := v\<rparr>"
| "step (TypeSipServer v) s = s\<lparr>sipServer_value := v\<rparr>"
| "step (TypeSipPort v) s = s\<lparr>sipPort_value := v\<rparr>"
| "step (TypeSipLogin v) s = s\<lparr>sipLogin_value := v\<rparr>"
| "step (TypeSipPassword v) s = s\<lparr>sipPassword_value := v\<rparr>"
| "step (TypeSipNumber v) s = s\<lparr>sipNumber_value := v\<rparr>"
| "step (SocketOpens w) s =
     (if readyStateOf s w = CONNECTING then onopen (setReadyState w OPEN s) else s)"
| "step (SocketReceives w m) s =
     (if readyStateOf s w = OPEN then handleWebSocketMessage m s else s)"
| "step (SocketErrors w) s =
     (if readyStateOf s w = CLOSED then s else onerror s)"
| "step (SocketCloses w) s =
     (if readyStateOf s w = CLOSED then s else onclose (setReadyState w CLOSED s))"
| "step (TimeoutFires h) s =
     (if h \<in> set (timeouts s)
      then connectWebSocket (s\<lparr>timeouts := remove1 h (timeouts s)\<rparr>)
      else s)"
| "step (IntervalFires h) s =
     (case map_of (intervals s) h of
        Some DurationTick \<Rightarrow> durationTick s
      | Some RingtonePulse \<Rightarrow> s
      | None \<Rightarrow> s)"
| "step (ClockAdvances d) s = s\<lparr>now := now s + int d\<rparr>"

fun run :: "action list \<Rightarrow> SIPPhone \<Rightarrow> SIPPhone" where
  "run [] s = s"
| "run (a # as) s = run as (step a s)"

subsection \<open>Reading the state\<close>

text \<open>
  The call state and the registration state as the program itself reads them, in
  \<open>updateCallControls\<close>, \<open>updateCallInfo\<close> and \<open>updateSIPStatus\<close>: from the flags.
  (\<open>currentCallState\<close> is written once, by the constructor, and never read.) A call
  that has been dialled and not yet answered has no flag of its own.
\<close>

datatype CallState = IDLE | INCOMING_RINGING | ACTIVE

definition callState :: "SIPPhone \<Rightarrow> CallState" where
  "callState s =
     (if truthy (isInCall s) then ACTIVE
      else if truthy (hasIncomingCall s) then INCOMING_RINGING
      else IDLE)"

datatype RegistrationState = UNREGISTERED | REGISTERED

definition registrationState :: "SIPPhone \<Rightarrow> RegistrationState" where
  "registrationState s = (if truthy (isRegistered s) then REGISTERED else UNREGISTERED)"

text \<open>The test of \<open>sendWebSocketMessage\<close>, line 225.\<close>

definition connectionOpen :: "SIPPhone \<Rightarrow> bool" where
  "connectionOpen s =
     (case websocket s of None \<Rightarrow> False | Some w \<Rightarrow> readyStateOf s w = OPEN)"

text \<open>The fields of the object: the state proper, as against the page and the browser.\<close>

definition session ::
  "SIPPhone \<Rightarrow>
     nat option \<times> bool \<times> jsval \<times> jsval \<times> jsval \<times> int option \<times> handle option \<times> jsval \<times>
     string \<times> handle option" where
  "session s =
     (websocket s, isConnected s, isRegistered s, isInCall s, hasIncomingCall s,
      callStartTime s, callTimer s, currentCaller s, currentCallState s,
      ringtoneInterval s)"

text \<open>A page with empty fields in a browser with nothing stored and no timer running.\<close>

definition page0 :: SIPPhone where
  "page0 =
     \<lparr>websocket = None, isConnected = False, isRegistered = JUndefined,
      isInCall = JUndefined, hasIncomingCall = JUndefined, callStartTime = None,
      callTimer = None, currentCaller = JUndefined, currentCallState = [],
      ringtoneInterval = None,
      connectionStatus_textContent = Value (JStr []), connectionStatus_className = [],
      sipStatus_textContent = Value (JStr []), sipStatus_className = [],
      callInfo_display = ''none'', callInfo_className = ''call-info'',
      remoteNumber_textContent = Value (JStr []),
      callDuration_textContent = Value (JStr []),
      callStatus_textContent = Value (JStr []),
      answerBtn_disabled = True, hangupBtn_disabled = True, dialBtn_disabled = True,
      registerBtn_disabled = False, unregisterBtn_disabled = True,
      phoneNumber_disabled = False, phoneNumber_value = [], sipServer_value = [],
      sipPort_value = ''5060'', sipLogin_value = [], sipPassword_value = [],
      sipNumber_value = [], logLevel_value = ''INFO'', logContainer = [],
      sockets = [], sent = [], timeouts = [], intervals = [], nextTimerId = 1, now = 0,
      audioAvailable = True, webSocketAllowed = True, sip_settings = None,
      sip_settings_writes = [], sip_phone_logs = []\<rparr>"

text \<open>The state a completion carries, and the sockets that have not closed yet.\<close>

definition stateOf :: "completion \<Rightarrow> SIPPhone" where
  "stateOf c = (case c of Normal s \<Rightarrow> s | Throw e s \<Rightarrow> s)"

definition liveSockets :: "SIPPhone \<Rightarrow> nat" where
  "liveSockets s = length (filter (\<lambda>r. r \<noteq> CLOSED) (sockets s))"

text \<open>Three concrete phones: just constructed; connected; connected and in a call.\<close>

definition phone0 :: SIPPhone where
  "phone0 = newSIPPhone page0"

definition connected0 :: SIPPhone where
  "connected0 = run [SocketOpens 0] phone0"

definition inCall0 :: SIPPhone where
  "inCall0 = run [SocketReceives 0 (event ''call_answered'' (JObj []))] connected0"

section \<open>What each method leaves alone\<close>

text \<open>
  For every method, the fields it does not write. These are the rewrite rules with
  which a field of the state after a handler is traced back through the calls the
  handler makes.
\<close>

lemma log_frame [simp]:
  "websocket (log m l s) = websocket s" "isConnected (log m l s) = isConnected s"
  "isRegistered (log m l s) = isRegistered s" "isInCall (log m l s) = isInCall s"
  "hasIncomingCall (log m l s) = hasIncomingCall s" "callStartTime (log m l s) = callStartTime s"
  "callTimer (log m l s) = callTimer s" "currentCaller (log m l s) = currentCaller s"
  "currentCallState (log m l s) = currentCallState s"
  "ringtoneInterval (log m l s) = ringtoneInterval s"
  "remoteNumber_textContent (log m l s) = remoteNumber_textContent s"
  "callDuration_textContent (log m l s) = callDuration_textContent s"
  "callInfo_display (log m l s) = callInfo_display s"
  "answerBtn_disabled (log m l s) = answerBtn_disabled s"
  "phoneNumber_value (log m l s) = phoneNumber_value s"
  "sipServer_value (log m l s) = sipServer_value s" "sipPort_value (log m l s) = sipPort_value s"
  "sipLogin_value (log m l s) = sipLogin_value s"
  "sipPassword_value (log m l s) = sipPassword_value s"
  "sipNumber_value (log m l s) = sipNumber_value s"
  "logLevel_value (log m l s) = logLevel_value s" "sockets (log m l s) = sockets s"
  "sent (log m l s) = sent s" "timeouts (log m l s) = timeouts s"
  "intervals (log m l s) = intervals s" "nextTimerId (log m l s) = nextTimerId s"
  "now (log m l s) = now s" "audioAvailable (log m l s) = audioAvailable s"
  "webSocketAllowed (log m l s) = webSocketAllowed s" "sip_settings (log m l s) = sip_settings s"
  "sip_settings_writes (log m l s) = sip_settings_writes s"
  by (simp_all add: log_def saveLogToStorage_def Let_def)

lemma loadLogsFromStorage_frame [simp]:
  "websocket (loadLogsFromStorage s) = websocket s"
  "isConnected (loadLogsFromStorage s) = isConnected s"
  "isRegistered (loadLogsFromStorage s) = isRegistered s"
  "isInCall (loadLogsFromStorage s) = isInCall s"
  "hasIncomingCall (loadLogsFromStorage s) = hasIncomingCall s"
  "callStartTime (loadLogsFromStorage s) = callStartTime s"
  "callTimer (loadLogsFromStorage s) = callTimer s"
  "currentCaller (loadLogsFromStorage s) = currentCaller s"
  "currentCallState (loadLogsFromStorage s) = currentCallState s"
  "ringtoneInterval (loadLogsFromStorage s) = ringtoneInterval s"
  "remoteNumber_textContent (loadLogsFromStorage s) = remoteNumber_textContent s"
  "callDuration_textContent (loadLogsFromStorage s) = callDuration_textContent s"
  "callInfo_display (loadLogsFromStorage s) = callInfo_display s"
  "answerBtn_disabled (loadLogsFromStorage s) = answerBtn_disabled s"
  "phoneNumber_value (loadLogsFromStorage s) = phoneNumber_value s"
  "sipServer_value (loadLogsFromStorage s) = sipServer_value s"
  "sipPort_value (loadLogsFromStorage s) = sipPort_value s"
  "sipLogin_value (loadLogsFromStorage s) = sipLogin_value s"
  "sipPassword_value (loadLogsFromStorage s) = sipPassword_value s"
  "sipNumber_value (loadLogsFromStorage s) = sipNumber_value s"
  "logLevel_value (loadLogsFromStorage s) = logLevel_value s"
  "sockets (loadLogsFromStorage s) = sockets s" "sent (loadLogsFromStorage s) = sent s"
  "timeouts (loadLogsFromStorage s) = timeouts s"
  "intervals (loadLogsFromStorage s) = intervals s"
  "nextTimerId (loadLogsFromStorage s) = nextTimerId s" "now (loadLogsFromStorage s) = now s"
  "audioAvailable (loadLogsFromStorage s) = audioAvailable s"
  "webSocketAllowed (loadLogsFromStorage s) = webSocketAllowed s"
  "sip_settings (loadLogsFromStorage s) = sip_settings s"
  "sip_settings_writes (loadLogsFromStorage s) = sip_settings_writes s"
  by (simp_all add: loadLogsFromStorage_def)

lemma clearInterval_frame [simp]:
  "websocket (clearInterval h s) = websocket s" "isConnected (clearInterval h s) = isConnected s"
  "isRegistered (clearInterval h s) = isRegistered s" "isInCall (clearInterval h s) = isInCall s"
  "hasIncomingCall (clearInterval h s) = hasIncomingCall s"
  "callStartTime (clearInterval h s) = callStartTime s"
  "callTimer (clearInterval h s) = callTimer s"
  "currentCaller (clearInterval h s) = currentCaller s"
  "currentCallState (clearInterval h s) = currentCallState s"
  "ringtoneInterval (clearInterval h s) = ringtoneInterval s"
  "remoteNumber_textContent (clearInterval h s) = remoteNumber_textContent s"
  "callDuration_textContent (clearInterval h s) = callDuration_textContent s"
  "callInfo_display (clearInterval h s) = callInfo_display s"
  "answerBtn_disabled (clearInterval h s) = answerBtn_disabled s"
  "phoneNumber_value (clearInterval h s) = phoneNumber_value s"
  "sipServer_value (clearInterval h s) = sipServer_value s"
  "sipPort_value (clearInterval h s) = sipPort_value s"
  "sipLogin_value (clearInterval h s) = sipLogin_value s"
  "sipPassword_value (clearInterval h s) = sipPassword_value s"
  "sipNumber_value (clearInterval h s) = sipNumber_value s"
  "logLevel_value (clearInterval h s) = logLevel_value s"
  "logContainer (clearInterval h s) = logContainer s" "sockets (clearInterval h s) = sockets s"
  "sent (clearInterval h s) = sent s" "timeouts (clearInterval h s) = timeouts s"
  "nextTimerId (clearInterval h s) = nextTimerId s" "now (clearInterval h s) = now s"
  "audioAvailable (clearInterval h s) = audioAvailable s"
  "webSocketAllowed (clearInterval h s) = webSocketAllowed s"
  "sip_settings (clearInterval h s) = sip_settings s"
  "sip_settings_writes (clearInterval h s) = sip_settings_writes s"
  by (simp_all add: clearInterval_def)

lemma setTimeout_frame [simp]:
  "websocket (setTimeout s) = websocket s" "isConnected (setTimeout s) = isConnected s"
  "isRegistered (setTimeout s) = isRegistered s" "isInCall (setTimeout s) = isInCall s"
  "hasIncomingCall (setTimeout s) = hasIncomingCall s"
  "callStartTime (setTimeout s) = callStartTime s" "callTimer (setTimeout s) = callTimer s"
  "currentCaller (setTimeout s) = currentCaller s"
  "currentCallState (setTimeout s) = currentCallState s"
  "ringtoneInterval (setTimeout s) = ringtoneInterval s"
  "remoteNumber_textContent (setTimeout s) = remoteNumber_textContent s"
  "callDuration_textContent (setTimeout s) = callDuration_textContent s"
  "callInfo_display (setTimeout s) = callInfo_display s"
  "answerBtn_disabled (setTimeout s) = answerBtn_disabled s"
  "phoneNumber_value (setTimeout s) = phoneNumber_value s"
  "sipServer_value (setTimeout s) = sipServer_value s"
  "sipPort_value (setTimeout s) = sipPort_value s"
  "sipLogin_value (setTimeout s) = sipLogin_value s"
  "sipPassword_value (setTimeout s) = sipPassword_value s"
  "sipNumber_value (setTimeout s) = sipNumber_value s"
  "logLevel_value (setTimeout s) = logLevel_value s"
  "logContainer (setTimeout s) = logContainer s" "sockets (setTimeout s) = sockets s"
  "sent (setTimeout s) = sent s" "intervals (setTimeout s) = intervals s"
  "now (setTimeout s) = now s" "audioAvailable (setTimeout s) = audioAvailable s"
  "webSocketAllowed (setTimeout s) = webSocketAllowed s"
  "sip_settings (setTimeout s) = sip_settings s"
  "sip_settings_writes (setTimeout s) = sip_settings_writes s"
  by (simp_all add: setTimeout_def)

lemma setReadyState_frame [simp]:
  "websocket (setReadyState w r s) = websocket s"
  "isConnected (setReadyState w r s) = isConnected s"
  "isRegistered (setReadyState w r s) = isRegistered s"
  "isInCall (setReadyState w r s) = isInCall s"
  "hasIncomingCall (setReadyState w r s) = hasIncomingCall s"
  "callStartTime (setReadyState w r s) = callStartTime s"
  "callTimer (setReadyState w r s) = callTimer s"
  "currentCaller (setReadyState w r s) = currentCaller s"
  "currentCallState (setReadyState w r s) = currentCallState s"
  "ringtoneInterval (setReadyState w r s) = ringtoneInterval s"
  "remoteNumber_textContent (setReadyState w r s) = remoteNumber_textContent s"
  "callDuration_textContent (setReadyState w r s) = callDuration_textContent s"
  "callInfo_display (setReadyState w r s) = callInfo_display s"
  "answerBtn_disabled (setReadyState w r s) = answerBtn_disabled s"
  "phoneNumber_value (setReadyState w r s) = phoneNumber_value s"
  "sipServer_value (setReadyState w r s) = sipServer_value s"
  "sipPort_value (setReadyState w r s) = sipPort_value s"
  "sipLogin_value (setReadyState w r s) = sipLogin_value s"
  "sipPassword_value (setReadyState w r s) = sipPassword_value s"
  "sipNumber_value (setReadyState w r s) = sipNumber_value s"
  "logLevel_value (setReadyState w r s) = logLevel_value s"
  "logContainer (setReadyState w r s) = logContainer s" "sent (setReadyState w r s) = sent s"
  "timeouts (setReadyState w r s) = timeouts s" "intervals (setReadyState w r s) = intervals s"
  "nextTimerId (setReadyState w r s) = nextTimerId s" "now (setReadyState w r s) = now s"
  "audioAvailable (setReadyState w r s) = audioAvailable s"
  "webSocketAllowed (setReadyState w r s) = webSocketAllowed s"
  "sip_settings (setReadyState w r s) = sip_settings s"
  "sip_settings_writes (setReadyState w r s) = sip_settings_writes s"
  by (simp_all add: setReadyState_def)

lemma stopRingtone_frame [simp]:
  "websocket (stopRingtone s) = websocket s" "isConnected (stopRingtone s) = isConnected s"
  "isRegistered (stopRingtone s) = isRegistered s" "isInCall (stopRingtone s) = isInCall s"
  "hasIncomingCall (stopRingtone s) = hasIncomingCall s"
  "callStartTime (stopRingtone s) = callStartTime s" "callTimer (stopRingtone s) = callTimer s"
  "currentCaller (stopRingtone s) = currentCaller s"
  "currentCallState (stopRingtone s) = currentCallState s"
  "remoteNumber_textContent (stopRingtone s) = remoteNumber_textContent s"
  "callDuration_textContent (stopRingtone s) = callDuration_textContent s"
  "callInfo_display (stopRingtone s) = callInfo_display s"
  "answerBtn_disabled (stopRingtone s) = answerBtn_disabled s"
  "phoneNumber_value (stopRingtone s) = phoneNumber_value s"
  "sipServer_value (stopRingtone s) = sipServer_value s"
  "sipPort_value (stopRingtone s) = sipPort_value s"
  "sipLogin_value (stopRingtone s) = sipLogin_value s"
  "sipPassword_value (stopRingtone s) = sipPassword_value s"
  "sipNumber_value (stopRingtone s) = sipNumber_value s"
  "logLevel_value (stopRingtone s) = logLevel_value s"
  "logContainer (stopRingtone s) = logContainer s" "sockets (stopRingtone s) = sockets s"
  "sent (stopRingtone s) = sent s" "timeouts (stopRingtone s) = timeouts s"
  "nextTimerId (stopRingtone s) = nextTimerId s" "now (stopRingtone s) = now s"
  "audioAvailable (stopRingtone s) = audioAvailable s"
  "webSocketAllowed (stopRingtone s) = webSocketAllowed s"
  "sip_settings (stopRingtone s) = sip_settings s"
  "sip_settings_writes (stopRingtone s) = sip_settings_writes s"
  by (simp_all add: stopRingtone_def split: option.splits)

lemma playRingtone_frame [simp]:
  "websocket (playRingtone s) = websocket s" "isConnected (playRingtone s) = isConnected s"
  "isRegistered (playRingtone s) = isRegistered s" "isInCall (playRingtone s) = isInCall s"
  "hasIncomingCall (playRingtone s) = hasIncomingCall s"
  "callStartTime (playRingtone s) = callStartTime s" "callTimer (playRingtone s) = callTimer s"
  "currentCaller (playRingtone s) = currentCaller s"
  "currentCallState (playRingtone s) = currentCallState s"
  "remoteNumber_textContent (playRingtone s) = remoteNumber_textContent s"
  "callDuration_textContent (playRingtone s) = callDuration_textContent s"
  "callInfo_display (playRingtone s) = callInfo_display s"
  "answerBtn_disabled (playRingtone s) = answerBtn_disabled s"
  "phoneNumber_value (playRingtone s) = phoneNumber_value s"
  "sipServer_value (playRingtone s) = sipServer_value s"
  "sipPort_value (playRingtone s) = sipPort_value s"
  "sipLogin_value (playRingtone s) = sipLogin_value s"
  "sipPassword_value (playRingtone s) = sipPassword_value s"
  "sipNumber_value (playRingtone s) = sipNumber_value s"
  "logLevel_value (playRingtone s) = logLevel_value s"
  "logContainer (playRingtone s) = logContainer s" "sockets (playRingtone s) = sockets s"
  "sent (playRingtone s) = sent s" "timeouts (playRingtone s) = timeouts s"
  "now (playRingtone s) = now s" "audioAvailable (playRingtone s) = audioAvailable s"
  "webSocketAllowed (playRingtone s) = webSocketAllowed s"
  "sip_settings (playRingtone s) = sip_settings s"
  "sip_settings_writes (playRingtone s) = sip_settings_writes s"
  by (simp_all add: playRingtone_def setInterval_def)

lemma showIncomingCall_frame [simp]:
  "websocket (showIncomingCall c s) = websocket s"
  "isConnected (showIncomingCall c s) = isConnected s"
  "isRegistered (showIncomingCall c s) = isRegistered s"
  "isInCall (showIncomingCall c s) = isInCall s"
  "hasIncomingCall (showIncomingCall c s) = hasIncomingCall s"
  "callStartTime (showIncomingCall c s) = callStartTime s"
  "callTimer (showIncomingCall c s) = callTimer s"
  "currentCaller (showIncomingCall c s) = currentCaller s"
  "currentCallState (showIncomingCall c s) = currentCallState s"
  "callDuration_textContent (showIncomingCall c s) = callDuration_textContent s"
  "phoneNumber_value (showIncomingCall c s) = phoneNumber_value s"
  "sipServer_value (showIncomingCall c s) = sipServer_value s"
  "sipPort_value (showIncomingCall c s) = sipPort_value s"
  "sipLogin_value (showIncomingCall c s) = sipLogin_value s"
  "sipPassword_value (showIncomingCall c s) = sipPassword_value s"
  "sipNumber_value (showIncomingCall c s) = sipNumber_value s"
  "logLevel_value (showIncomingCall c s) = logLevel_value s"
  "logContainer (showIncomingCall c s) = logContainer s"
  "sockets (showIncomingCall c s) = sockets s" "sent (showIncomingCall c s) = sent s"
  "timeouts (showIncomingCall c s) = timeouts s" "now (showIncomingCall c s) = now s"
  "audioAvailable (showIncomingCall c s) = audioAvailable s"
  "webSocketAllowed (showIncomingCall c s) = webSocketAllowed s"
  "sip_settings (showIncomingCall c s) = sip_settings s"
  "sip_settings_writes (showIncomingCall c s) = sip_settings_writes s"
  by (simp_all add: showIncomingCall_def)

lemma showOutgoingCall_frame [simp]:
  "websocket (showOutgoingCall n s) = websocket s"
  "isConnected (showOutgoingCall n s) = isConnected s"
  "isRegistered (showOutgoingCall n s) = isRegistered s"
  "isInCall (showOutgoingCall n s) = isInCall s"
  "hasIncomingCall (showOutgoingCall n s) = hasIncomingCall s"
  "callStartTime (showOutgoingCall n s) = callStartTime s"
  "callTimer (showOutgoingCall n s) = callTimer s"
  "currentCaller (showOutgoingCall n s) = currentCaller s"
  "currentCallState (showOutgoingCall n s) = currentCallState s"
  "ringtoneInterval (showOutgoingCall n s) = ringtoneInterval s"
  "callDuration_textContent (showOutgoingCall n s) = callDuration_textContent s"
  "phoneNumber_value (showOutgoingCall n s) = phoneNumber_value s"
  "sipServer_value (showOutgoingCall n s) = sipServer_value s"
  "sipPort_value (showOutgoingCall n s) = sipPort_value s"
  "sipLogin_value (showOutgoingCall n s) = sipLogin_value s"
  "sipPassword_value (showOutgoingCall n s) = sipPassword_value s"
  "sipNumber_value (showOutgoingCall n s) = sipNumber_value s"
  "logLevel_value (showOutgoingCall n s) = logLevel_value s"
  "logContainer (showOutgoingCall n s) = logContainer s"
  "sockets (showOutgoingCall n s) = sockets s" "sent (showOutgoingCall n s) = sent s"
  "timeouts (showOutgoingCall n s) = timeouts s" "intervals (showOutgoingCall n s) = intervals s"
  "nextTimerId (showOutgoingCall n s) = nextTimerId s" "now (showOutgoingCall n s) = now s"
  "audioAvailable (showOutgoingCall n s) = audioAvailable s"
  "webSocketAllowed (showOutgoingCall n s) = webSocketAllowed s"
  "sip_settings (showOutgoingCall n s) = sip_settings s"
  "sip_settings_writes (showOutgoingCall n s) = sip_settings_writes s"
  by (simp_all add: showOutgoingCall_def)

lemma updateCallInfo_frame [simp]:
  "websocket (updateCallInfo s) = websocket s" "isConnected (updateCallInfo s) = isConnected s"
  "isRegistered (updateCallInfo s) = isRegistered s" "isInCall (updateCallInfo s) = isInCall s"
  "hasIncomingCall (updateCallInfo s) = hasIncomingCall s"
  "callStartTime (updateCallInfo s) = callStartTime s"
  "callTimer (updateCallInfo s) = callTimer s"
  "currentCaller (updateCallInfo s) = currentCaller s"
  "currentCallState (updateCallInfo s) = currentCallState s"
  "callDuration_textContent (updateCallInfo s) = callDuration_textContent s"
  "phoneNumber_value (updateCallInfo s) = phoneNumber_value s"
  "sipServer_value (updateCallInfo s) = sipServer_value s"
  "sipPort_value (updateCallInfo s) = sipPort_value s"
  "sipLogin_value (updateCallInfo s) = sipLogin_value s"
  "sipPassword_value (updateCallInfo s) = sipPassword_value s"
  "sipNumber_value (updateCallInfo s) = sipNumber_value s"
  "logLevel_value (updateCallInfo s) = logLevel_value s"
  "logContainer (updateCallInfo s) = logContainer s" "sockets (updateCallInfo s) = sockets s"
  "sent (updateCallInfo s) = sent s" "timeouts (updateCallInfo s) = timeouts s"
  "now (updateCallInfo s) = now s" "audioAvailable (updateCallInfo s) = audioAvailable s"
  "webSocketAllowed (updateCallInfo s) = webSocketAllowed s"
  "sip_settings (updateCallInfo s) = sip_settings s"
  "sip_settings_writes (updateCallInfo s) = sip_settings_writes s"
  by (simp_all add: updateCallInfo_def)

lemma hideCallInfo_frame [simp]:
  "websocket (hideCallInfo s) = websocket s" "isConnected (hideCallInfo s) = isConnected s"
  "isRegistered (hideCallInfo s) = isRegistered s" "isInCall (hideCallInfo s) = isInCall s"
  "hasIncomingCall (hideCallInfo s) = hasIncomingCall s"
  "callStartTime (hideCallInfo s) = callStartTime s" "callTimer (hideCallInfo s) = callTimer s"
  "currentCaller (hideCallInfo s) = currentCaller s"
  "currentCallState (hideCallInfo s) = currentCallState s"
  "answerBtn_disabled (hideCallInfo s) = answerBtn_disabled s"
  "phoneNumber_value (hideCallInfo s) = phoneNumber_value s"
  "sipServer_value (hideCallInfo s) = sipServer_value s"
  "sipPort_value (hideCallInfo s) = sipPort_value s"
  "sipLogin_value (hideCallInfo s) = sipLogin_value s"
  "sipPassword_value (hideCallInfo s) = sipPassword_value s"
  "sipNumber_value (hideCallInfo s) = sipNumber_value s"
  "logLevel_value (hideCallInfo s) = logLevel_value s"
  "logContainer (hideCallInfo s) = logContainer s" "sockets (hideCallInfo s) = sockets s"
  "sent (hideCallInfo s) = sent s" "timeouts (hideCallInfo s) = timeouts s"
  "nextTimerId (hideCallInfo s) = nextTimerId s" "now (hideCallInfo s) = now s"
  "audioAvailable (hideCallInfo s) = audioAvailable s"
  "webSocketAllowed (hideCallInfo s) = webSocketAllowed s"
  "sip_settings (hideCallInfo s) = sip_settings s"
  "sip_settings_writes (hideCallInfo s) = sip_settings_writes s"
  by (simp_all add: hideCallInfo_def)

lemma startCallTimer_frame [simp]:
  "websocket (startCallTimer s) = websocket s" "isConnected (startCallTimer s) = isConnected s"
  "isRegistered (startCallTimer s) = isRegistered s" "isInCall (startCallTimer s) = isInCall s"
  "hasIncomingCall (startCallTimer s) = hasIncomingCall s"
  "currentCaller (startCallTimer s) = currentCaller s"
  "currentCallState (startCallTimer s) = currentCallState s"
  "ringtoneInterval (startCallTimer s) = ringtoneInterval s"
  "remoteNumber_textContent (startCallTimer s) = remoteNumber_textContent s"
  "callDuration_textContent (startCallTimer s) = callDuration_textContent s"
  "callInfo_display (startCallTimer s) = callInfo_display s"
  "answerBtn_disabled (startCallTimer s) = answerBtn_disabled s"
  "phoneNumber_value (startCallTimer s) = phoneNumber_value s"
  "sipServer_value (startCallTimer s) = sipServer_value s"
  "sipPort_value (startCallTimer s) = sipPort_value s"
  "sipLogin_value (startCallTimer s) = sipLogin_value s"
  "sipPassword_value (startCallTimer s) = sipPassword_value s"
  "sipNumber_value (startCallTimer s) = sipNumber_value s"
  "logLevel_value (startCallTimer s) = logLevel_value s"
  "logContainer (startCallTimer s) = logContainer s" "sockets (startCallTimer s) = sockets s"
  "sent (startCallTimer s) = sent s" "timeouts (startCallTimer s) = timeouts s"
  "now (startCallTimer s) = now s" "audioAvailable (startCallTimer s) = audioAvailable s"
  "webSocketAllowed (startCallTimer s) = webSocketAllowed s"
  "sip_settings (startCallTimer s) = sip_settings s"
  "sip_settings_writes (startCallTimer s) = sip_settings_writes s"
  by (simp_all add: startCallTimer_def setInterval_def)

lemma durationTick_frame [simp]:
  "websocket (durationTick s) = websocket s" "isConnected (durationTick s) = isConnected s"
  "isRegistered (durationTick s) = isRegistered s" "isInCall (durationTick s) = isInCall s"
  "hasIncomingCall (durationTick s) = hasIncomingCall s"
  "callStartTime (durationTick s) = callStartTime s" "callTimer (durationTick s) = callTimer s"
  "currentCaller (durationTick s) = currentCaller s"
  "currentCallState (durationTick s) = currentCallState s"
  "ringtoneInterval (durationTick s) = ringtoneInterval s"
  "remoteNumber_textContent (durationTick s) = remoteNumber_textContent s"
  "callInfo_display (durationTick s) = callInfo_display s"
  "answerBtn_disabled (durationTick s) = answerBtn_disabled s"
  "phoneNumber_value (durationTick s) = phoneNumber_value s"
  "sipServer_value (durationTick s) = sipServer_value s"
  "sipPort_value (durationTick s) = sipPort_value s"
  "sipLogin_value (durationTick s) = sipLogin_value s"
  "sipPassword_value (durationTick s) = sipPassword_value s"
  "sipNumber_value (durationTick s) = sipNumber_value s"
  "logLevel_value (durationTick s) = logLevel_value s"
  "logContainer (durationTick s) = logContainer s" "sockets (durationTick s) = sockets s"
  "sent (durationTick s) = sent s" "timeouts (durationTick s) = timeouts s"
  "intervals (durationTick s) = intervals s" "nextTimerId (durationTick s) = nextTimerId s"
  "now (durationTick s) = now s" "audioAvailable (durationTick s) = audioAvailable s"
  "webSocketAllowed (durationTick s) = webSocketAllowed s"
  "sip_settings (durationTick s) = sip_settings s"
  "sip_settings_writes (durationTick s) = sip_settings_writes s"
  by (simp_all add: durationTick_def Let_def)

lemma stopCallTimer_frame [simp]:
  "websocket (stopCallTimer s) = websocket s" "isConnected (stopCallTimer s) = isConnected s"
  "isRegistered (stopCallTimer s) = isRegistered s" "isInCall (stopCallTimer s) = isInCall s"
  "hasIncomingCall (stopCallTimer s) = hasIncomingCall s"
  "callStartTime (stopCallTimer s) = callStartTime s"
  "currentCaller (stopCallTimer s) = currentCaller s"
  "currentCallState (stopCallTimer s) = currentCallState s"
  "ringtoneInterval (stopCallTimer s) = ringtoneInterval s"
  "remoteNumber_textContent (stopCallTimer s) = remoteNumber_textContent s"
  "callInfo_display (stopCallTimer s) = callInfo_display s"
  "answerBtn_disabled (stopCallTimer s) = answerBtn_disabled s"
  "phoneNumber_value (stopCallTimer s) = phoneNumber_value s"
  "sipServer_value (stopCallTimer s) = sipServer_value s"
  "sipPort_value (stopCallTimer s) = sipPort_value s"
  "sipLogin_value (stopCallTimer s) = sipLogin_value s"
  "sipPassword_value (stopCallTimer s) = sipPassword_value s"
  "sipNumber_value (stopCallTimer s) = sipNumber_value s"
  "logLevel_value (stopCallTimer s) = logLevel_value s"
  "logContainer (stopCallTimer s) = logContainer s" "sockets (stopCallTimer s) = sockets s"
  "sent (stopCallTimer s) = sent s" "timeouts (stopCallTimer s) = timeouts s"
  "nextTimerId (stopCallTimer s) = nextTimerId s" "now (stopCallTimer s) = now s"
  "audioAvailable (stopCallTimer s) = audioAvailable s"
  "webSocketAllowed (stopCallTimer s) = webSocketAllowed s"
  "sip_settings (stopCallTimer s) = sip_settings s"
  "sip_settings_writes (stopCallTimer s) = sip_settings_writes s"
  by (simp_all add: stopCallTimer_def split: option.splits)

lemma updateConnectionStatus_frame [simp]:
  "websocket (updateConnectionStatus s) = websocket s"
  "isConnected (updateConnectionStatus s) = isConnected s"
  "isRegistered (updateConnectionStatus s) = isRegistered s"
  "isInCall (updateConnectionStatus s) = isInCall s"
  "hasIncomingCall (updateConnectionStatus s) = hasIncomingCall s"
  "callStartTime (updateConnectionStatus s) = callStartTime s"
  "callTimer (updateConnectionStatus s) = callTimer s"
  "currentCaller (updateConnectionStatus s) = currentCaller s"
  "currentCallState (updateConnectionStatus s) = currentCallState s"
  "ringtoneInterval (updateConnectionStatus s) = ringtoneInterval s"
  "remoteNumber_textContent (updateConnectionStatus s) = remoteNumber_textContent s"
  "callDuration_textContent (updateConnectionStatus s) = callDuration_textContent s"
  "callInfo_display (updateConnectionStatus s) = callInfo_display s"
  "answerBtn_disabled (updateConnectionStatus s) = answerBtn_disabled s"
  "phoneNumber_value (updateConnectionStatus s) = phoneNumber_value s"
  "sipServer_value (updateConnectionStatus s) = sipServer_value s"
  "sipPort_value (updateConnectionStatus s) = sipPort_value s"
  "sipLogin_value (updateConnectionStatus s) = sipLogin_value s"
  "sipPassword_value (updateConnectionStatus s) = sipPassword_value s"
  "sipNumber_value (updateConnectionStatus s) = sipNumber_value s"
  "logLevel_value (updateConnectionStatus s) = logLevel_value s"
  "logContainer (updateConnectionStatus s) = logContainer s"
  "sockets (updateConnectionStatus s) = sockets s" "sent (updateConnectionStatus s) = sent s"
  "timeouts (updateConnectionStatus s) = timeouts s"
  "intervals (updateConnectionStatus s) = intervals s"
  "nextTimerId (updateConnectionStatus s) = nextTimerId s"
  "now (updateConnectionStatus s) = now s"
  "audioAvailable (updateConnectionStatus s) = audioAvailable s"
  "webSocketAllowed (updateConnectionStatus s) = webSocketAllowed s"
  "sip_settings (updateConnectionStatus s) = sip_settings s"
  "sip_settings_writes (updateConnectionStatus s) = sip_settings_writes s"
  by (simp_all add: updateConnectionStatus_def)

lemma updateSIPStatus_frame [simp]:
  "websocket (updateSIPStatus s) = websocket s" "isConnected (updateSIPStatus s) = isConnected s"
  "isRegistered (updateSIPStatus s) = isRegistered s" "isInCall (updateSIPStatus s) = isInCall s"
  "hasIncomingCall (updateSIPStatus s) = hasIncomingCall s"
  "callStartTime (updateSIPStatus s) = callStartTime s"
  "callTimer (updateSIPStatus s) = callTimer s"
  "currentCaller (updateSIPStatus s) = currentCaller s"
  "currentCallState (updateSIPStatus s) = currentCallState s"
  "ringtoneInterval (updateSIPStatus s) = ringtoneInterval s"
  "remoteNumber_textContent (updateSIPStatus s) = remoteNumber_textContent s"
  "callDuration_textContent (updateSIPStatus s) = callDuration_textContent s"
  "callInfo_display (updateSIPStatus s) = callInfo_display s"
  "answerBtn_disabled (updateSIPStatus s) = answerBtn_disabled s"
  "phoneNumber_value (updateSIPStatus s) = phoneNumber_value s"
  "sipServer_value (updateSIPStatus s) = sipServer_value s"
  "sipPort_value (updateSIPStatus s) = sipPort_value s"
  "sipLogin_value (updateSIPStatus s) = sipLogin_value s"
  "sipPassword_value (updateSIPStatus s) = sipPassword_value s"
  "sipNumber_value (updateSIPStatus s) = sipNumber_value s"
  "logLevel_value (updateSIPStatus s) = logLevel_value s"
  "logContainer (updateSIPStatus s) = logContainer s" "sockets (updateSIPStatus s) = sockets s"
  "sent (updateSIPStatus s) = sent s" "timeouts (updateSIPStatus s) = timeouts s"
  "intervals (updateSIPStatus s) = intervals s" "nextTimerId (updateSIPStatus s) = nextTimerId s"
  "now (updateSIPStatus s) = now s" "audioAvailable (updateSIPStatus s) = audioAvailable s"
  "webSocketAllowed (updateSIPStatus s) = webSocketAllowed s"
  "sip_settings (updateSIPStatus s) = sip_settings s"
  "sip_settings_writes (updateSIPStatus s) = sip_settings_writes s"
  by (simp_all add: updateSIPStatus_def)

lemma updateCallControls_frame [simp]:
  "websocket (updateCallControls s) = websocket s"
  "isConnected (updateCallControls s) = isConnected s"
  "isRegistered (updateCallControls s) = isRegistered s"
  "isInCall (updateCallControls s) = isInCall s"
  "hasIncomingCall (updateCallControls s) = hasIncomingCall s"
  "callStartTime (updateCallControls s) = callStartTime s"
  "callTimer (updateCallControls s) = callTimer s"
  "currentCaller (updateCallControls s) = currentCaller s"
  "currentCallState (updateCallControls s) = currentCallState s"
  "ringtoneInterval (updateCallControls s) = ringtoneInterval s"
  "remoteNumber_textContent (updateCallControls s) = remoteNumber_textContent s"
  "callDuration_textContent (updateCallControls s) = callDuration_textContent s"
  "callInfo_display (updateCallControls s) = callInfo_display s"
  "phoneNumber_value (updateCallControls s) = phoneNumber_value s"
  "sipServer_value (updateCallControls s) = sipServer_value s"
  "sipPort_value (updateCallControls s) = sipPort_value s"
  "sipLogin_value (updateCallControls s) = sipLogin_value s"
  "sipPassword_value (updateCallControls s) = sipPassword_value s"
  "sipNumber_value (updateCallControls s) = sipNumber_value s"
  "logLevel_value (updateCallControls s) = logLevel_value s"
  "logContainer (updateCallControls s) = logContainer s"
  "sockets (updateCallControls s) = sockets s" "sent (updateCallControls s) = sent s"
  "timeouts (updateCallControls s) = timeouts s" "intervals (updateCallControls s) = intervals s"
  "nextTimerId (updateCallControls s) = nextTimerId s" "now (updateCallControls s) = now s"
  "audioAvailable (updateCallControls s) = audioAvailable s"
  "webSocketAllowed (updateCallControls s) = webSocketAllowed s"
  "sip_settings (updateCallControls s) = sip_settings s"
  "sip_settings_writes (updateCallControls s) = sip_settings_writes s"
  by (simp_all add: updateCallControls_def)

lemma saveSettings_frame [simp]:
  "websocket (saveSettings s) = websocket s" "isConnected (saveSettings s) = isConnected s"
  "isRegistered (saveSettings s) = isRegistered s" "isInCall (saveSettings s) = isInCall s"
  "hasIncomingCall (saveSettings s) = hasIncomingCall s"
  "callStartTime (saveSettings s) = callStartTime s" "callTimer (saveSettings s) = callTimer s"
  "currentCaller (saveSettings s) = currentCaller s"
  "currentCallState (saveSettings s) = currentCallState s"
  "ringtoneInterval (saveSettings s) = ringtoneInterval s"
  "remoteNumber_textContent (saveSettings s) = remoteNumber_textContent s"
  "callDuration_textContent (saveSettings s) = callDuration_textContent s"
  "callInfo_display (saveSettings s) = callInfo_display s"
  "answerBtn_disabled (saveSettings s) = answerBtn_disabled s"
  "phoneNumber_value (saveSettings s) = phoneNumber_value s"
  "sipServer_value (saveSettings s) = sipServer_value s"
  "sipPort_value (saveSettings s) = sipPort_value s"
  "sipLogin_value (saveSettings s) = sipLogin_value s"
  "sipPassword_value (saveSettings s) = sipPassword_value s"
  "sipNumber_value (saveSettings s) = sipNumber_value s"
  "logLevel_value (saveSettings s) = logLevel_value s" "sockets (saveSettings s) = sockets s"
  "sent (saveSettings s) = sent s" "timeouts (saveSettings s) = timeouts s"
  "intervals (saveSettings s) = intervals s" "nextTimerId (saveSettings s) = nextTimerId s"
  "now (saveSettings s) = now s" "audioAvailable (saveSettings s) = audioAvailable s"
  "webSocketAllowed (saveSettings s) = webSocketAllowed s"
  by (simp_all add: saveSettings_def Let_def)

lemma loadSettings_frame [simp]:
  "websocket (loadSettings s) = websocket s" "isConnected (loadSettings s) = isConnected s"
  "isRegistered (loadSettings s) = isRegistered s" "isInCall (loadSettings s) = isInCall s"
  "hasIncomingCall (loadSettings s) = hasIncomingCall s"
  "callStartTime (loadSettings s) = callStartTime s" "callTimer (loadSettings s) = callTimer s"
  "currentCaller (loadSettings s) = currentCaller s"
  "currentCallState (loadSettings s) = currentCallState s"
  "ringtoneInterval (loadSettings s) = ringtoneInterval s"
  "remoteNumber_textContent (loadSettings s) = remoteNumber_textContent s"
  "callDuration_textContent (loadSettings s) = callDuration_textContent s"
  "callInfo_display (loadSettings s) = callInfo_display s"
  "answerBtn_disabled (loadSettings s) = answerBtn_disabled s"
  "phoneNumber_value (loadSettings s) = phoneNumber_value s"
  "sockets (loadSettings s) = sockets s" "sent (loadSettings s) = sent s"
  "timeouts (loadSettings s) = timeouts s" "intervals (loadSettings s) = intervals s"
  "nextTimerId (loadSettings s) = nextTimerId s" "now (loadSettings s) = now s"
  "audioAvailable (loadSettings s) = audioAvailable s"
  "webSocketAllowed (loadSettings s) = webSocketAllowed s"
  "sip_settings (loadSettings s) = sip_settings s"
  "sip_settings_writes (loadSettings s) = sip_settings_writes s"
  by (simp_all add: loadSettings_def Let_def split: option.splits)

lemma sendWebSocketMessage_frame [simp]:
  "websocket (sendWebSocketMessage msg s) = websocket s"
  "isConnected (sendWebSocketMessage msg s) = isConnected s"
  "isRegistered (sendWebSocketMessage msg s) = isRegistered s"
  "isInCall (sendWebSocketMessage msg s) = isInCall s"
  "hasIncomingCall (sendWebSocketMessage msg s) = hasIncomingCall s"
  "callStartTime (sendWebSocketMessage msg s) = callStartTime s"
  "callTimer (sendWebSocketMessage msg s) = callTimer s"
  "currentCaller (sendWebSocketMessage msg s) = currentCaller s"
  "currentCallState (sendWebSocketMessage msg s) = currentCallState s"
  "ringtoneInterval (sendWebSocketMessage msg s) = ringtoneInterval s"
  "remoteNumber_textContent (sendWebSocketMessage msg s) = remoteNumber_textContent s"
  "callDuration_textContent (sendWebSocketMessage msg s) = callDuration_textContent s"
  "callInfo_display (sendWebSocketMessage msg s) = callInfo_display s"
  "answerBtn_disabled (sendWebSocketMessage msg s) = answerBtn_disabled s"
  "phoneNumber_value (sendWebSocketMessage msg s) = phoneNumber_value s"
  "sipServer_value (sendWebSocketMessage msg s) = sipServer_value s"
  "sipPort_value (sendWebSocketMessage msg s) = sipPort_value s"
  "sipLogin_value (sendWebSocketMessage msg s) = sipLogin_value s"
  "sipPassword_value (sendWebSocketMessage msg s) = sipPassword_value s"
  "sipNumber_value (sendWebSocketMessage msg s) = sipNumber_value s"
  "logLevel_value (sendWebSocketMessage msg s) = logLevel_value s"
  "sockets (sendWebSocketMessage msg s) = sockets s"
  "timeouts (sendWebSocketMessage msg s) = timeouts s"
  "intervals (sendWebSocketMessage msg s) = intervals s"
  "nextTimerId (sendWebSocketMessage msg s) = nextTimerId s"
  "now (sendWebSocketMessage msg s) = now s"
  "audioAvailable (sendWebSocketMessage msg s) = audioAvailable s"
  "webSocketAllowed (sendWebSocketMessage msg s) = webSocketAllowed s"
  "sip_settings (sendWebSocketMessage msg s) = sip_settings s"
  "sip_settings_writes (sendWebSocketMessage msg s) = sip_settings_writes s"
  by (simp_all add: sendWebSocketMessage_def split: option.splits)

lemma connectWebSocket_frame [simp]:
  "isConnected (connectWebSocket s) = isConnected s"
  "isRegistered (connectWebSocket s) = isRegistered s"
  "isInCall (connectWebSocket s) = isInCall s"
  "hasIncomingCall (connectWebSocket s) = hasIncomingCall s"
  "callStartTime (connectWebSocket s) = callStartTime s"
  "callTimer (connectWebSocket s) = callTimer s"
  "currentCaller (connectWebSocket s) = currentCaller s"
  "currentCallState (connectWebSocket s) = currentCallState s"
  "ringtoneInterval (connectWebSocket s) = ringtoneInterval s"
  "remoteNumber_textContent (connectWebSocket s) = remoteNumber_textContent s"
  "callDuration_textContent (connectWebSocket s) = callDuration_textContent s"
  "callInfo_display (connectWebSocket s) = callInfo_display s"
  "answerBtn_disabled (connectWebSocket s) = answerBtn_disabled s"
  "phoneNumber_value (connectWebSocket s) = phoneNumber_value s"
  "sipServer_value (connectWebSocket s) = sipServer_value s"
  "sipPort_value (connectWebSocket s) = sipPort_value s"
  "sipLogin_value (connectWebSocket s) = sipLogin_value s"
  "sipPassword_value (connectWebSocket s) = sipPassword_value s"
  "sipNumber_value (connectWebSocket s) = sipNumber_value s"
  "logLevel_value (connectWebSocket s) = logLevel_value s" "sent (connectWebSocket s) = sent s"
  "timeouts (connectWebSocket s) = timeouts s" "intervals (connectWebSocket s) = intervals s"
  "nextTimerId (connectWebSocket s) = nextTimerId s" "now (connectWebSocket s) = now s"
  "audioAvailable (connectWebSocket s) = audioAvailable s"
  "webSocketAllowed (connectWebSocket s) = webSocketAllowed s"
  "sip_settings (connectWebSocket s) = sip_settings s"
  "sip_settings_writes (connectWebSocket s) = sip_settings_writes s"
  by (simp_all add: connectWebSocket_def)

lemma close_frame [simp]:
  "websocket (close w s) = websocket s" "isConnected (close w s) = isConnected s"
  "isRegistered (close w s) = isRegistered s" "isInCall (close w s) = isInCall s"
  "hasIncomingCall (close w s) = hasIncomingCall s" "callStartTime (close w s) = callStartTime s"
  "callTimer (close w s) = callTimer s" "currentCaller (close w s) = currentCaller s"
  "currentCallState (close w s) = currentCallState s"
  "ringtoneInterval (close w s) = ringtoneInterval s"
  "remoteNumber_textContent (close w s) = remoteNumber_textContent s"
  "callDuration_textContent (close w s) = callDuration_textContent s"
  "callInfo_display (close w s) = callInfo_display s"
  "answerBtn_disabled (close w s) = answerBtn_disabled s"
  "phoneNumber_value (close w s) = phoneNumber_value s"
  "sipServer_value (close w s) = sipServer_value s" "sipPort_value (close w s) = sipPort_value s"
  "sipLogin_value (close w s) = sipLogin_value s"
  "sipPassword_value (close w s) = sipPassword_value s"
  "sipNumber_value (close w s) = sipNumber_value s"
  "logLevel_value (close w s) = logLevel_value s" "logContainer (close w s) = logContainer s"
  "sent (close w s) = sent s" "timeouts (close w s) = timeouts s"
  "intervals (close w s) = intervals s" "nextTimerId (close w s) = nextTimerId s"
  "now (close w s) = now s" "audioAvailable (close w s) = audioAvailable s"
  "webSocketAllowed (close w s) = webSocketAllowed s" "sip_settings (close w s) = sip_settings s"
  "sip_settings_writes (close w s) = sip_settings_writes s"
  by (simp_all add: close_def)

section \<open>What the methods write\<close>

lemmas command_defs = requestStatus_def registerSIP_def unregisterSIP_def makeCall_def
  answerCall_def hangupCall_def sendDTMF_def sendMessage_def

lemmas handler_defs = handleStatusUpdate_def handleSIPRegistered_def handleSIPUnregistered_def
  handleIncomingCall_def handleCallRinging_def handleCallAnswered_def handleCallEnded_def
  handleCallFailed_def

lemma log_logContainer [simp]: "logContainer (log m l s) = logContainer s @ [(m, l)]"
  by (simp add: log_def saveLogToStorage_def Let_def)

lemma stopRingtone_ringtoneInterval [simp]: "ringtoneInterval (stopRingtone s) = None"
  by (simp add: stopRingtone_def split: option.splits)

lemma hideCallInfo_effect [simp]:
  "ringtoneInterval (hideCallInfo s) = None"
  "remoteNumber_textContent (hideCallInfo s) = Value (JStr [])"
  "callDuration_textContent (hideCallInfo s) = Value (JStr [])"
  "callInfo_display (hideCallInfo s) = ''none''"
  by (simp_all add: hideCallInfo_def)

lemma stopCallTimer_effect [simp]:
  "callTimer (stopCallTimer s) = None"
  "callDuration_textContent (stopCallTimer s) = Value (JStr [])"
  by (simp_all add: stopCallTimer_def split: option.splits)

lemma stopCallTimer_intervals:
  "intervals (stopCallTimer s) =
     (case callTimer s of
        Some h \<Rightarrow> filter (\<lambda>p. fst p \<noteq> h) (intervals s)
      | None \<Rightarrow> intervals s)"
  by (simp add: stopCallTimer_def clearInterval_def split: option.splits)

lemma startCallTimer_effect [simp]:
  "callTimer (startCallTimer s) = Some (Handle (nextTimerId s))"
  "callStartTime (startCallTimer s) = Some (now s)"
  by (simp_all add: startCallTimer_def setInterval_def)

lemma saveSettings_effect [simp]:
  "sip_settings_writes (saveSettings s) =
     sip_settings_writes s @
       [JObj (settings_fields (getSIPSettings s) @ [(''log_level'', JStr (logLevel_value s))])]"
  "sip_settings (saveSettings s) =
     Some (JObj (settings_fields (getSIPSettings s) @ [(''log_level'', JStr (logLevel_value s))]))"
  by (simp_all add: saveSettings_def Let_def)

lemma sendWebSocketMessage_closed:
  "\<not> connectionOpen s \<Longrightarrow> sendWebSocketMessage msg s = log WsNotConnected ERROR s"
  by (simp add: sendWebSocketMessage_def connectionOpen_def split: option.splits)


lemma map_of_filter_fst: "map_of (filter (\<lambda>p. fst p \<noteq> h) xs) h = None"
  by (induction xs) auto

subsection \<open>The dispatcher on a frame of each type\<close>

lemma on_sip_registered:
  "handleWebSocketMessage (event ''sip_registered'' p) s =
     handleSIPRegistered p (log (Received (JStr ''sip_registered'')) DEBUG s)"
  by (simp add: handleWebSocketMessage_def tryHandle_def event_def member_def Let_def)


lemma on_call_answered:
  "handleWebSocketMessage (event ''call_answered'' p) s =
     handleCallAnswered p (log (Received (JStr ''call_answered'')) DEBUG s)"
  by (simp add: handleWebSocketMessage_def tryHandle_def event_def member_def Let_def)

lemma on_call_ended:
  "handleWebSocketMessage (event ''call_ended'' p) s =
     handleCallEnded p (log (Received (JStr ''call_ended'')) DEBUG s)"
  by (simp add: handleWebSocketMessage_def tryHandle_def event_def member_def Let_def)

lemma on_call_failed:
  "handleWebSocketMessage (event ''call_failed'' p) s =
     (case handleCallFailed p (log (Received (JStr ''call_failed'')) DEBUG s) of
        Normal s' \<Rightarrow> s'
      | Throw e s' \<Rightarrow> log (ProcessingError e) ERROR s')"
  by (simp add: handleWebSocketMessage_def tryHandle_def event_def member_def Let_def)

lemma on_status_update:
  "handleWebSocketMessage (event ''status_update'' p) s =
     (case handleStatusUpdate p (log (Received (JStr ''status_update'')) DEBUG s) of
        Normal s' \<Rightarrow> s'
      | Throw e s' \<Rightarrow> log (ProcessingError e) ERROR s')"
  by (simp add: handleWebSocketMessage_def tryHandle_def event_def member_def Let_def)


text \<open>
  What \<open>call_ended\<close> does, from every state: the call state is IDLE, the call timer
  and the ringtone are stopped, the number shown in the call panel is emptied, and
  \<open>currentCaller\<close> keeps its value.
\<close>

lemma call_ended_effects:
  "callState (handleWebSocketMessage (event ''call_ended'' p) s) = IDLE"
  "callTimer (handleWebSocketMessage (event ''call_ended'' p) s) = None"
  "ringtoneInterval (handleWebSocketMessage (event ''call_ended'' p) s) = None"
  "remoteNumber_textContent (handleWebSocketMessage (event ''call_ended'' p) s) = Value (JStr [])"
  "currentCaller (handleWebSocketMessage (event ''call_ended'' p) s) = currentCaller s"
  by (simp_all add: on_call_ended handleCallEnded_def callState_def)

text \<open>
  What \<open>call_failed\<close> does to the flags and the call timer: nothing, with or without
  a payload.
\<close>

lemma call_failed_flags:
  "isInCall (handleWebSocketMessage (event ''call_failed'' p) s) = isInCall s"
  "hasIncomingCall (handleWebSocketMessage (event ''call_failed'' p) s) = hasIncomingCall s"
  "callTimer (handleWebSocketMessage (event ''call_failed'' p) s) = callTimer s"
  by (simp_all add: on_call_failed handleCallFailed_def member_def)

lemma call_failed_effects:
  "ringtoneInterval (handleWebSocketMessage (event ''call_failed'' (JObj [(''reason'', r)])) s)
     = None"
  "logContainer (handleWebSocketMessage (event ''call_failed'' (JObj [(''reason'', r)])) s)
     = logContainer s @ [(Received (JStr ''call_failed''), DEBUG), (CallError r, ERROR)]"
  by (simp_all add: on_call_failed handleCallFailed_def member_def)

subsection \<open>The dispatcher on any frame\<close>

lemma handleWebSocketMessage_stateOf:
  "sockets (handleWebSocketMessage m s) = sockets (stateOf (tryHandle m s))"
  "timeouts (handleWebSocketMessage m s) = timeouts (stateOf (tryHandle m s))"
  "callTimer (handleWebSocketMessage m s) = callTimer (stateOf (tryHandle m s))"
  "callStartTime (handleWebSocketMessage m s) = callStartTime (stateOf (tryHandle m s))"
  by (simp_all add: handleWebSocketMessage_def stateOf_def split: completion.splits)

lemma tryHandle_sockets:
  "sockets (stateOf (tryHandle m s)) = sockets s"
  "timeouts (stateOf (tryHandle m s)) = timeouts s"
  by (simp_all add: tryHandle_def stateOf_def handler_defs member_def Let_def
      split: message.splits)

lemma tryHandle_callStartTime:
  "callStartTime (stateOf (tryHandle m s)) = callStartTime s \<or>
   callStartTime (stateOf (tryHandle m s)) = Some (now s)"
  by (simp add: tryHandle_def stateOf_def handler_defs member_def Let_def
      split: message.splits)

lemma tryHandle_callTimer:
  "callTimer (stateOf (tryHandle m s)) = callTimer s \<or>
   callTimer (stateOf (tryHandle m s)) = None \<or>
   callStartTime (stateOf (tryHandle m s)) \<noteq> None"
  by (simp add: tryHandle_def stateOf_def handler_defs member_def Let_def
      split: message.splits)

subsection \<open>Commands\<close>

lemma issue_keeps:
  "isRegistered (issue c s) = isRegistered s"
  "currentCaller (issue c s) = currentCaller s"
  "callStartTime (issue c s) = callStartTime s"
  "sockets (issue c s) = sockets s"
  "timeouts (issue c s) = timeouts s"
  by (cases c; simp add: command_defs Let_def)+

lemma issue_keeps_flags:
  "c \<noteq> HangupCall \<Longrightarrow> isInCall (issue c s) = isInCall s"
  "c \<noteq> HangupCall \<Longrightarrow> hasIncomingCall (issue c s) = hasIncomingCall s"
  by (cases c; simp add: command_defs Let_def)+

lemma issue_callTimer:
  "callTimer (issue c s) = callTimer s \<or> callTimer (issue c s) = None"
  by (cases c; simp add: command_defs Let_def)

lemma issue_closed:
  assumes "\<not> connectionOpen s"
  shows "sent (issue c s) = sent s"
    and "length (logContainer s) < length (logContainer (issue c s))"
    and "take (length (logContainer s)) (logContainer (issue c s)) = logContainer s"
  using assms
  by (cases c; simp add: command_defs Let_def sendWebSocketMessage_closed)+

lemma hangupCall_fields:
  "isInCall (hangupCall s) = JBool False"
  "hasIncomingCall (hangupCall s) = JBool False"
  "callTimer (hangupCall s) = None"
  "ringtoneInterval (hangupCall s) = None"
  "callDuration_textContent (hangupCall s) = Value (JStr [])"
  by (simp_all add: hangupCall_def Let_def)

lemma hangupCall_intervals:
  "callTimer s = Some h \<Longrightarrow> map_of (intervals (hangupCall s)) h = None"
  by (simp add: hangupCall_def Let_def stopCallTimer_intervals map_of_filter_fst)

lemma call_ended_after_hangup:
  "session (handleWebSocketMessage (event ''call_ended'' p) (hangupCall s)) =
     session (hangupCall s)"
  by (simp add: session_def on_call_ended handleCallEnded_def hangupCall_fields)

subsection \<open>One step of the event loop\<close>

text \<open>
  The call timer and the start time. A step leaves the start time alone or sets it to
  the current time; it leaves the call timer alone, clears it, or starts it together
  with a start time.
\<close>

lemma step_callStartTime:
  "callStartTime (step a s) = callStartTime s \<or> callStartTime (step a s) = Some (now s)"
proof (cases a)
  case (Invoke c)
  then show ?thesis by (simp add: issue_keeps)
next
  case (SocketReceives w m)
  then show ?thesis
    using tryHandle_callStartTime [of m s] by (simp add: handleWebSocketMessage_stateOf)
next
  case (IntervalFires h)
  then show ?thesis by (simp split: option.splits interval_kind.splits)
qed (simp_all add: destroy_def onopen_def requestStatus_def onclose_def onerror_def
       changeLogLevel_def clearLogs_def split: option.splits fetch_result.splits)

lemma step_callTimer:
  "callTimer (step a s) = callTimer s \<or> callTimer (step a s) = None \<or>
   callStartTime (step a s) \<noteq> None"
proof (cases a)
  case (Invoke c)
  then show ?thesis using issue_callTimer [of c s] by auto
next
  case (SocketReceives w m)
  then show ?thesis
    using tryHandle_callTimer [of m s] by (simp add: handleWebSocketMessage_stateOf)
next
  case (IntervalFires h)
  then show ?thesis by (simp split: option.splits interval_kind.splits)
qed (simp_all add: destroy_def onopen_def requestStatus_def onclose_def onerror_def
       changeLogLevel_def clearLogs_def split: option.splits fetch_result.splits)

lemma run_callStartTime:
  "callStartTime s \<noteq> None \<Longrightarrow> callStartTime (run as s) \<noteq> None"
proof (induction as arbitrary: s)
  case Nil
  then show ?case by simp
next
  case (Cons a as)
  from step_callStartTime [of a s] Cons.prems have "callStartTime (step a s) \<noteq> None"
    by auto
  from Cons.IH [OF this] show ?case by simp
qed

lemma run_timer:
  "(callTimer s \<noteq> None \<longrightarrow> callStartTime s \<noteq> None) \<Longrightarrow>
   (callTimer (run as s) \<noteq> None \<longrightarrow> callStartTime (run as s) \<noteq> None)"
proof (induction as arbitrary: s)
  case Nil
  then show ?case by simp
next
  case (Cons a as)
  have "callTimer (step a s) \<noteq> None \<longrightarrow> callStartTime (step a s) \<noteq> None"
    using step_callTimer [of a s] step_callStartTime [of a s] Cons.prems by auto
  from Cons.IH [OF this] show ?case by simp
qed

lemma newSIPPhone_timer:
  "callTimer (newSIPPhone e) = None" "callStartTime (newSIPPhone e) = None"
  by (simp_all add: newSIPPhone_def initializeEventListeners_def)

text \<open>
  Sockets and reconnects. A socket that closes schedules one reconnect, and a
  reconnect that fires creates at most one socket, so no step increases the number of
  sockets not yet closed plus the number of pending reconnects.
\<close>

lemma filter_update_count:
  "i < length xs \<Longrightarrow>
     length (filter P (xs[i := y])) + (if P (xs ! i) then 1 else 0) =
     length (filter P xs) + (if P y then 1 else 0)"
proof (induction xs arbitrary: i)
  case Nil
  then show ?case by simp
next
  case (Cons x xs)
  then show ?case by (cases i) auto
qed

lemma liveSockets_update:
  assumes "readyStateOf s w \<noteq> CLOSED"
  shows "liveSockets (setReadyState w r s) + 1 = liveSockets s + (if r = CLOSED then 0 else 1)"
proof -
  from assms have w: "w < length (sockets s)" and live: "sockets s ! w \<noteq> CLOSED"
    by (auto simp: readyStateOf_def split: if_splits)
  from filter_update_count [OF w, of "\<lambda>r. r \<noteq> CLOSED" r] live
  show ?thesis by (simp add: liveSockets_def setReadyState_def)
qed

lemma liveSockets_destroy: "liveSockets (destroy s) = liveSockets s"
proof (cases "websocket s")
  case None
  then show ?thesis by (simp add: destroy_def liveSockets_def)
next
  case (Some w)
  show ?thesis
  proof (cases "readyStateOf s w = CLOSING \<or> readyStateOf s w = CLOSED")
    case True
    with Some show ?thesis by (simp add: destroy_def liveSockets_def close_def)
  next
    case False
    then have "readyStateOf s w \<noteq> CLOSED" by simp
    from liveSockets_update [OF this, of CLOSING]
    have "liveSockets (setReadyState w CLOSING s) = liveSockets s" by simp
    moreover have "liveSockets (destroy s) = liveSockets (setReadyState w CLOSING s)"
      using Some False by (simp add: destroy_def liveSockets_def close_def)
    ultimately show ?thesis by simp
  qed
qed

lemma destroy_timeouts: "timeouts (destroy s) = timeouts s"
  by (simp add: destroy_def split: option.splits)

lemma connectWebSocket_live:
  "liveSockets (connectWebSocket s) \<le> liveSockets s + 1"
  "timeouts (connectWebSocket s) = timeouts s"
  by (simp_all add: connectWebSocket_def liveSockets_def)

lemma step_pending:
  "liveSockets (step a s) + length (timeouts (step a s)) \<le> liveSockets s + length (timeouts s)"
proof (cases a)
  case (Invoke c)
  then show ?thesis by (simp add: issue_keeps liveSockets_def)
next
  case Destroy
  then show ?thesis by (simp add: liveSockets_destroy destroy_timeouts)
next
  case (SocketOpens w)
  show ?thesis
  proof (cases "readyStateOf s w = CONNECTING")
    case True
    then have "readyStateOf s w \<noteq> CLOSED" by simp
    from liveSockets_update [OF this, of OPEN]
    have "liveSockets (setReadyState w OPEN s) = liveSockets s" by simp
    moreover have "liveSockets (onopen (setReadyState w OPEN s)) =
        liveSockets (setReadyState w OPEN s)"
      by (simp add: liveSockets_def onopen_def requestStatus_def)
    moreover have "timeouts (onopen (setReadyState w OPEN s)) = timeouts s"
      by (simp add: onopen_def requestStatus_def)
    ultimately show ?thesis using SocketOpens True by simp
  next
    case False
    with SocketOpens show ?thesis by simp
  qed
next
  case (SocketReceives w m)
  then show ?thesis
    by (simp add: liveSockets_def handleWebSocketMessage_stateOf tryHandle_sockets)
next
  case (SocketErrors w)
  then show ?thesis by (simp add: liveSockets_def onerror_def)
next
  case (SocketCloses w)
  show ?thesis
  proof (cases "readyStateOf s w = CLOSED")
    case True
    with SocketCloses show ?thesis by simp
  next
    case False
    from liveSockets_update [OF False, of CLOSED]
    have "liveSockets (setReadyState w CLOSED s) + 1 = liveSockets s" by simp
    moreover have "liveSockets (onclose (setReadyState w CLOSED s)) =
        liveSockets (setReadyState w CLOSED s)"
      by (simp add: liveSockets_def onclose_def)
    moreover have "length (timeouts (onclose (setReadyState w CLOSED s))) =
        length (timeouts s) + 1"
      by (simp add: onclose_def setTimeout_def)
    ultimately show ?thesis using SocketCloses False by simp
  qed
next
  case (TimeoutFires h)
  show ?thesis
  proof (cases "h \<in> set (timeouts s)")
    case True
    then have "length (remove1 h (timeouts s)) + 1 = length (timeouts s)"
      by (simp add: length_remove1) (cases "timeouts s"; simp)
    moreover have "liveSockets (connectWebSocket (s\<lparr>timeouts := remove1 h (timeouts s)\<rparr>))
        \<le> liveSockets s + 1"
      using connectWebSocket_live(1) [of "s\<lparr>timeouts := remove1 h (timeouts s)\<rparr>"]
      by (simp add: liveSockets_def)
    ultimately show ?thesis using TimeoutFires True
      by (simp add: connectWebSocket_live(2))
  next
    case False
    with TimeoutFires show ?thesis by simp
  qed
next
  case (IntervalFires h)
  then show ?thesis
    by (simp add: liveSockets_def split: option.splits interval_kind.splits)
qed (simp_all add: liveSockets_def changeLogLevel_def clearLogs_def split: fetch_result.splits)

lemma run_pending:
  "liveSockets (run as s) + length (timeouts (run as s)) \<le> liveSockets s + length (timeouts s)"
proof (induction as arbitrary: s)
  case Nil
  show ?case by simp
next
  case (Cons a as)
  from Cons.IH [of "step a s"] step_pending [of a s] show ?case by simp
qed

lemma newSIPPhone_pending:
  assumes "sockets e = []" and "timeouts e = []"
  shows "liveSockets (newSIPPhone e) + length (timeouts (newSIPPhone e)) \<le> 1"
  using assms
  by (simp add: newSIPPhone_def initializeEventListeners_def liveSockets_def
      connectWebSocket_def)

text \<open>The socket that \<open>destroy\<close> closes schedules a reconnect when its close event arrives.\<close>

lemma destroy_then_close:
  assumes "websocket s = Some w" and "readyStateOf s w \<noteq> CLOSED"
  shows "timeouts (run [Destroy, SocketCloses w] s) = timeouts s @ [Handle (nextTimerId s)]"
proof -
  from assms(2) have w: "w < length (sockets s)"
    by (auto simp: readyStateOf_def split: if_splits)
  have "readyStateOf (destroy s) w \<noteq> CLOSED"
    using assms w by (auto simp: destroy_def readyStateOf_def close_def setReadyState_def)
  moreover have "nextTimerId (destroy s) = nextTimerId s" "timeouts (destroy s) = timeouts s"
    by (simp_all add: destroy_def split: option.splits)
  ultimately show ?thesis by (simp add: onclose_def setTimeout_def)
qed

section \<open>The claims\<close>

subsection \<open>C1: a command while the connection is not open\<close>

text \<open>
  C1 says that a command issued while the connection is not open changes no component
  of the session state, \<open>hangup_call\<close> in particular. \<open>hangupCall\<close> sends first and
  then resets the flags, whether or not anything was sent: on the phone that is in a
  call and whose socket has closed, hanging up sends nothing and takes \<open>isInCall\<close>
  from true to false.
\<close>

theorem hangup_while_disconnected_changes_state:
  "let s = run [SocketCloses 0] inCall0
   in \<not> connectionOpen s \<and> isInCall s = JBool True \<and> callState s = ACTIVE \<and>
      isInCall (issue HangupCall s) = JBool False \<and> callState (issue HangupCall s) = IDLE \<and>
      sent (issue HangupCall s) = sent s"
  by code_simp

text \<open>
  C1, as amended. For every command issued while the connection is not open (no
  socket, or a socket whose \<open>readyState\<close> is not OPEN): nothing is sent; the log
  grows; \<open>isRegistered\<close>, \<open>currentCaller\<close> and \<open>callStartTime\<close> do not change; and
  \<open>isInCall\<close> and \<open>hasIncomingCall\<close> do not change either, unless the command is
  \<open>hangup_call\<close>, which logs that the socket is not connected and still sets both
  flags to false.
\<close>

theorem command_while_disconnected:
  assumes "\<not> connectionOpen s"
  shows "sent (issue c s) = sent s \<and>
         length (logContainer s) < length (logContainer (issue c s)) \<and>
         take (length (logContainer s)) (logContainer (issue c s)) = logContainer s \<and>
         isRegistered (issue c s) = isRegistered s \<and>
         currentCaller (issue c s) = currentCaller s \<and>
         callStartTime (issue c s) = callStartTime s \<and>
         (if c = HangupCall
          then isInCall (issue c s) = JBool False \<and> hasIncomingCall (issue c s) = JBool False \<and>
               logContainer (issue c s) =
                 logContainer s @ [(WsNotConnected, ERROR), (HangupSent, INFO)]
          else isInCall (issue c s) = isInCall s \<and>
               hasIncomingCall (issue c s) = hasIncomingCall s)"
  using assms
  by (simp add: issue_closed issue_keeps issue_keeps_flags hangupCall_fields)
     (simp add: hangupCall_def Let_def sendWebSocketMessage_closed)

text \<open>The theorem of C1 on a phone whose socket has closed, for dialling and for hanging up.\<close>

theorem command_while_disconnected_witness:
  "let s = run [SocketCloses 0, TypePhoneNumber ''200''] connected0
   in \<not> connectionOpen s \<and>
      sent (issue MakeCall s) = sent s \<and>
      length (logContainer s) < length (logContainer (issue MakeCall s)) \<and>
      isRegistered (issue MakeCall s) = isRegistered s \<and>
      isInCall (issue MakeCall s) = isInCall s \<and>
      hasIncomingCall (issue MakeCall s) = hasIncomingCall s \<and>
      isInCall (issue HangupCall s) = JBool False \<and>
      logContainer (issue HangupCall s) =
        logContainer s @ [(WsNotConnected, ERROR), (HangupSent, INFO)]"
proof -
  define s where "s = run [SocketCloses 0, TypePhoneNumber ''200''] connected0"
  have closed: "\<not> connectionOpen s" unfolding s_def by code_simp
  from command_while_disconnected [OF closed, of MakeCall]
       command_while_disconnected [OF closed, of HangupCall] closed
  show ?thesis unfolding s_def [symmetric] Let_def by simp
qed

subsection \<open>C2: a registration confirmed twice\<close>

text \<open>
  C2 says that two \<open>sip_registered\<close> events in a row save the settings exactly once.
  \<open>handleSIPRegistered\<close> calls \<open>saveSettings\<close> every time: on the connected phone the
  two events write the stored settings twice.
\<close>

theorem sip_registered_twice_saves_twice:
  "length (sip_settings_writes connected0) = 0 \<and>
   length (sip_settings_writes (run
      [SocketReceives 0 (event ''sip_registered'' (JObj [])),
       SocketReceives 0 (event ''sip_registered'' (JObj []))] connected0)) = 2"
  by code_simp

text \<open>
  C2, as amended. From every state, two \<open>sip_registered\<close> events in a row leave the
  phone registered, and each of them saves the settings once: two writes, both of the
  same snapshot of the settings fields, so that the stored settings after the second
  event are those after the first.
\<close>

theorem sip_registered_twice:
  "let v = JObj (settings_fields (getSIPSettings s) @ [(''log_level'', JStr (logLevel_value s))]);
       s1 = handleWebSocketMessage (event ''sip_registered'' p) s;
       s2 = handleWebSocketMessage (event ''sip_registered'' q) s1
   in isRegistered s1 = JBool True \<and> isRegistered s2 = JBool True \<and>
      registrationState s1 = REGISTERED \<and> registrationState s2 = REGISTERED \<and>
      sip_settings_writes s1 = sip_settings_writes s @ [v] \<and>
      sip_settings_writes s2 = sip_settings_writes s @ [v, v] \<and>
      sip_settings s1 = Some v \<and> sip_settings s2 = Some v"
  by (simp add: Let_def on_sip_registered handleSIPRegistered_def registrationState_def
      getSIPSettings_def)

subsection \<open>C3: a failed call\<close>

text \<open>
  C3 says that \<open>call_failed\<close> takes every call state to IDLE, clearing both
  indications. \<open>handleCallFailed\<close> stops the ringtone and hides the call panel, as
  \<open>handleCallEnded\<close> does, but the two assignments with which \<open>handleCallEnded\<close>
  begins are missing. The code at two inputs. A call is ringing, and \<open>call_failed\<close>
  with reason "busy" arrives: the ringtone stops, the reason is logged, the panel is
  hidden, but \<open>hasIncomingCall\<close> is still true, the call state is still
  INCOMING\_RINGING and the answer button is enabled. A call is active, and the same
  event arrives: the call state is still ACTIVE and the call timer still runs.
\<close>

theorem call_failed_keeps_call_state:
  "let failed = event ''call_failed'' (JObj [(''reason'', JStr ''busy'')]);
       ringing = run [SocketReceives 0
                        (event ''incoming_call'' (JObj [(''caller_number'', JStr ''100'')]))]
                   connected0;
       s1 = run [SocketReceives 0 failed] ringing;
       s2 = run [SocketReceives 0 failed] inCall0
   in callState ringing = INCOMING_RINGING \<and>
      callState s1 = INCOMING_RINGING \<and>
      hasIncomingCall s1 = JBool True \<and>
      ringtoneInterval s1 = None \<and>
      last (logContainer s1) = (CallError (JStr ''busy''), ERROR) \<and>
      callInfo_display s1 = ''none'' \<and>
      answerBtn_disabled s1 = False \<and>
      callState inCall0 = ACTIVE \<and>
      callState s2 = ACTIVE \<and>
      isInCall s2 = JBool True \<and>
      callTimer s2 = Some (Handle 1) \<and>
      intervals s2 = [(Handle 1, DurationTick)]"
  by code_simp

subsection \<open>C4: the call state and the start time\<close>

text \<open>
  C4 says that, along every sequence of commands and events from the initial state,
  the start time of the call is set whenever the call state is ACTIVE and cleared
  whenever it is not. Both halves fail. \<open>stopCallTimer\<close> clears the timer and leaves
  \<open>callStartTime\<close>: after \<open>call_answered\<close> and \<open>call_ended\<close> the state is IDLE with
  a start time. \<open>handleStatusUpdate\<close> sets \<open>isInCall\<close> and starts no timer: after a
  \<open>status_update\<close> with \<open>active_call: true\<close> the state is ACTIVE without a start
  time.
\<close>

theorem start_time_not_tied_to_active:
  "let s1 = run [SocketOpens 0, SocketReceives 0 (event ''call_answered'' (JObj [])),
                 SocketReceives 0 (event ''call_ended'' (JObj []))] phone0;
       s2 = run [SocketOpens 0,
                 SocketReceives 0 (event ''status_update''
                   (JObj [(''sip_registered'', JBool True), (''active_call'', JBool True),
                          (''has_incoming'', JBool False), (''caller_number'', JStr ''100'')]))]
              phone0
   in callState s1 = IDLE \<and> callStartTime s1 = Some 0 \<and>
      callState s2 = ACTIVE \<and> callStartTime s2 = None"
  by code_simp

text \<open>
  C4, as amended. Along every sequence of actions from the state the constructor
  leaves, whenever the call timer is set a start time is set. A \<open>call_answered\<close>
  event gives the call state ACTIVE, sets the start time to the current time and starts
  the call timer. A start time, once set, is never cleared, whatever happens next
  (leaving ACTIVE keeps it), and a \<open>status_update\<close> does not touch it (entering
  ACTIVE that way sets none).
\<close>

theorem call_timer_has_start_time:
  "(callTimer (run as (newSIPPhone e)) \<noteq> None \<longrightarrow>
      callStartTime (run as (newSIPPhone e)) \<noteq> None) \<and>
   callState (handleWebSocketMessage (event ''call_answered'' p) s) = ACTIVE \<and>
   callStartTime (handleWebSocketMessage (event ''call_answered'' p) s) = Some (now s) \<and>
   callTimer (handleWebSocketMessage (event ''call_answered'' p) s) =
     Some (Handle (nextTimerId s)) \<and>
   (callStartTime s \<noteq> None \<longrightarrow> callStartTime (run bs s) \<noteq> None) \<and>
   callStartTime (handleWebSocketMessage (event ''status_update'' q) s) = callStartTime s"
proof -
  have "callTimer (run as (newSIPPhone e)) \<noteq> None \<longrightarrow>
          callStartTime (run as (newSIPPhone e)) \<noteq> None"
    by (rule run_timer) (simp add: newSIPPhone_timer)
  moreover have "callState (handleWebSocketMessage (event ''call_answered'' p) s) = ACTIVE"
    by (simp add: on_call_answered handleCallAnswered_def callState_def)
  moreover have
    "callStartTime (handleWebSocketMessage (event ''call_answered'' p) s) = Some (now s)"
    by (simp add: on_call_answered handleCallAnswered_def)
  moreover have "callTimer (handleWebSocketMessage (event ''call_answered'' p) s) =
      Some (Handle (nextTimerId s))"
    by (simp add: on_call_answered handleCallAnswered_def)
  moreover have
    "callStartTime (handleWebSocketMessage (event ''status_update'' q) s) = callStartTime s"
    by (simp add: on_status_update handleStatusUpdate_def member_def Let_def)
  ultimately show ?thesis using run_callStartTime [of s bs] by blast
qed

text \<open>
  The theorem of C4 where its two hypotheses hold: after a \<open>call_answered\<close> the timer
  is set, and so is the start time; the phone in a call has a start time, and still
  has it after \<open>call_ended\<close>.
\<close>

theorem call_timer_has_start_time_witness:
  "callTimer (run [SocketOpens 0, SocketReceives 0 (event ''call_answered'' (JObj []))]
               (newSIPPhone page0)) \<noteq> None \<and>
   callStartTime (run [SocketOpens 0, SocketReceives 0 (event ''call_answered'' (JObj []))]
               (newSIPPhone page0)) \<noteq> None \<and>
   callStartTime inCall0 \<noteq> None \<and>
   callStartTime (run [SocketReceives 0 (event ''call_ended'' (JObj []))] inCall0) \<noteq> None"
proof -
  have a: "callTimer (run [SocketOpens 0, SocketReceives 0 (event ''call_answered'' (JObj []))]
               (newSIPPhone page0)) \<noteq> None" by code_simp
  have b: "callStartTime inCall0 \<noteq> None" by code_simp
  from call_timer_has_start_time
         [of "[SocketOpens 0, SocketReceives 0 (event ''call_answered'' (JObj []))]" page0
             "JObj []" inCall0 "[SocketReceives 0 (event ''call_ended'' (JObj []))]" "JObj []"]
       a b
  show ?thesis by blast
qed

subsection \<open>C5: a status update\<close>



subsection \<open>C6: hanging up an active call\<close>

text \<open>
  C6. \<open>hangupCall\<close> in a state whose call state is ACTIVE gives, at once, the call
  state IDLE with the call timer stopped: \<open>callTimer\<close> is cleared, the interval it
  held is no longer active, and the displayed duration is emptied. A \<open>call_ended\<close>
  event processed after that changes no field of the phone object (it repaints the
  page and logs), and the call state stays IDLE.
\<close>

theorem hangup_while_active:
  assumes "callState s = ACTIVE"
  shows "callState (hangupCall s) = IDLE \<and>
         callTimer (hangupCall s) = None \<and>
         callDuration_textContent (hangupCall s) = Value (JStr []) \<and>
         (case callTimer s of
            None \<Rightarrow> True
          | Some h \<Rightarrow> map_of (intervals (hangupCall s)) h = None) \<and>
         session (handleWebSocketMessage (event ''call_ended'' p) (hangupCall s)) =
           session (hangupCall s) \<and>
         callState (handleWebSocketMessage (event ''call_ended'' p) (hangupCall s)) = IDLE"
  by (simp add: callState_def hangupCall_fields hangupCall_intervals call_ended_after_hangup
      call_ended_effects [unfolded callState_def] split: option.splits)

text \<open>The theorem of C6 on the phone in a call, whose call timer is the interval 1.\<close>

theorem hangup_while_active_witness:
  "callState inCall0 = ACTIVE \<and>
   callState (hangupCall inCall0) = IDLE \<and>
   callTimer inCall0 = Some (Handle 1) \<and>
   callTimer (hangupCall inCall0) = None \<and>
   map_of (intervals (hangupCall inCall0)) (Handle 1) = None \<and>
   session (handleWebSocketMessage (event ''call_ended'' (JObj [])) (hangupCall inCall0)) =
     session (hangupCall inCall0)"
proof -
  have a: "callState inCall0 = ACTIVE" by code_simp
  have t: "callTimer inCall0 = Some (Handle 1)" by code_simp
  from hangup_while_active [OF a, of "JObj []"] a t show ?thesis by simp
qed

subsection \<open>C7: the register command\<close>




subsection \<open>C8: pending reconnects and teardown\<close>

text \<open>
  C8 says that \<open>destroy\<close> cancels a pending reconnect, so that none fires after
  teardown. The handle that \<open>setTimeout\<close> returns at line 107 is dropped, and
  \<open>destroy\<close> clears no timeout: on the phone whose socket has closed, the reconnect
  is still pending after \<open>destroy\<close>, and when it fires it opens a second socket.
\<close>

theorem destroy_keeps_pending_reconnect:
  "let s = run [SocketCloses 0] connected0
   in timeouts s = [Handle 1] \<and>
      timeouts (run [Destroy] s) = [Handle 1] \<and>
      sockets (run [Destroy] s) = [CLOSED] \<and>
      sockets (run [Destroy, TimeoutFires (Handle 1)] s) = [CLOSED, CONNECTING] \<and>
      websocket (run [Destroy, TimeoutFires (Handle 1)] s) = Some 1"
  by code_simp

text \<open>
  C8, as amended. On a page that has no socket and no pending timeout when the phone
  is constructed, at most one reconnect is pending after every sequence of actions.
  \<open>destroy\<close> cancels none: the pending reconnects are the same after it as before,
  and when the socket it has closed reports its closure, one more is scheduled.
\<close>

theorem at_most_one_pending_reconnect:
  assumes "sockets e = []" and "timeouts e = []"
  shows "length (timeouts (run as (newSIPPhone e))) \<le> 1 \<and>
         timeouts (destroy s) = timeouts s \<and>
         (websocket s = Some w \<and> readyStateOf s w \<noteq> CLOSED \<longrightarrow>
            timeouts (run [Destroy, SocketCloses w] s) = timeouts s @ [Handle (nextTimerId s)])"
proof -
  from run_pending [of as "newSIPPhone e"] newSIPPhone_pending [OF assms]
  have "length (timeouts (run as (newSIPPhone e))) \<le> 1" by simp
  then show ?thesis using destroy_then_close [of s w] by (simp add: destroy_timeouts)
qed

text \<open>
  The theorem of C8 on the empty page, for a socket that opens and closes, and on the
  connected phone, whose socket is open when \<open>destroy\<close> runs.
\<close>

theorem at_most_one_pending_reconnect_witness:
  "sockets page0 = [] \<and> timeouts page0 = [] \<and>
   length (timeouts (run [SocketOpens 0, SocketCloses 0] (newSIPPhone page0))) \<le> 1 \<and>
   websocket connected0 = Some 0 \<and> readyStateOf connected0 0 \<noteq> CLOSED \<and>
   timeouts (run [Destroy, SocketCloses 0] connected0) =
     timeouts connected0 @ [Handle (nextTimerId connected0)]"
proof -
  have a: "sockets page0 = []" and b: "timeouts page0 = []" by (simp_all add: page0_def)
  have c: "websocket connected0 = Some 0" by code_simp
  have d: "readyStateOf connected0 0 \<noteq> CLOSED" by code_simp
  from at_most_one_pending_reconnect [OF a b, of "[SocketOpens 0, SocketCloses 0]" connected0 0]
       a b c d
  show ?thesis by blast
qed

subsection \<open>C9: the end of a call\<close>

text \<open>
  C9 says that after \<open>call_ended\<close> the stored number of the remote party is empty.
  \<open>handleCallEnded\<close> reaches IDLE, stops the call timer and the ringtone and empties
  the number shown in the call panel, but does not reset \<open>currentCaller\<close>, the field
  in which the phone keeps the number. The code at the input: a call from 100 rings
  and ends. The call state is IDLE and the panel shows no number, but
  \<open>currentCaller\<close> is still "100". The stale value is read again: the user then
  dials 200, the call is answered, and \<open>updateCallInfo\<close>
  (\<open>this.currentCaller || this.phoneNumber.value\<close>) shows 100 as the remote party
  of the call to 200.
\<close>

theorem call_ended_keeps_currentCaller:
  "let ringing = run [SocketReceives 0
                        (event ''incoming_call'' (JObj [(''caller_number'', JStr ''100'')]))]
                   connected0;
       s1 = run [SocketReceives 0 (event ''call_ended'' (JObj []))] ringing;
       s2 = run [TypePhoneNumber ''200'', Invoke MakeCall] s1;
       s3 = run [SocketReceives 0 (event ''call_answered'' (JObj []))] s2
   in callState ringing = INCOMING_RINGING \<and>
      currentCaller ringing = JStr ''100'' \<and>
      callState s1 = IDLE \<and>
      callTimer s1 = None \<and>
      ringtoneInterval s1 = None \<and>
      remoteNumber_textContent s1 = Value (JStr []) \<and>
      currentCaller s1 = JStr ''100'' \<and>
      last (sent s2) = (0, ''sip_make_call'', JObj [(''number'', JStr ''200'')]) \<and>
      remoteNumber_textContent s2 = Value (JStr ''200'') \<and>
      callState s3 = ACTIVE \<and>
      remoteNumber_textContent s3 = Value (JStr ''100'')"
  by code_simp

subsection \<open>C10: an incoming call without payload\<close>

text \<open>
  C10. An \<open>incoming_call\<close> frame that is valid JSON but has no payload (the property
  is missing, or is \<open>null\<close>) makes \<open>handleIncomingCall\<close> throw a TypeError at
  \<open>payload.caller_number\<close>, after it has set \<open>hasIncomingCall\<close> to \<open>true\<close>. The
  dispatcher catches the error and logs it; the flag stays set, whatever it was
  before, and the caller number is untouched. So the handling of the frame is not
  atomic: the discarded frame leaves the state partly changed.
\<close>

theorem incoming_call_without_payload:
  "let m1 = Parsed (JObj [(''type'', JStr ''incoming_call'')]);
       m2 = event ''incoming_call'' JNull;
       partly = (log (Received (JStr ''incoming_call'')) DEBUG s)\<lparr>hasIncomingCall := JBool True\<rparr>
   in tryHandle m1 s = Throw TypeError partly \<and>
      tryHandle m2 s = Throw TypeError partly \<and>
      handleWebSocketMessage m1 s = log (ProcessingError TypeError) ERROR partly \<and>
      handleWebSocketMessage m2 s = log (ProcessingError TypeError) ERROR partly \<and>
      hasIncomingCall (handleWebSocketMessage m1 s) = JBool True \<and>
      currentCaller (handleWebSocketMessage m1 s) = currentCaller s \<and>
      intervals (handleWebSocketMessage m1 s) = intervals s \<and>
      logContainer (handleWebSocketMessage m1 s) =
        logContainer s @
          [(Received (JStr ''incoming_call''), DEBUG), (ProcessingError TypeError, ERROR)]"
  by (simp add: handleWebSocketMessage_def tryHandle_def event_def member_def
      handleIncomingCall_def Let_def)

text \<open>On the connected phone, which has no call, the discarded frame makes a call ring.\<close>

lemma incoming_call_without_payload_example:
  "callState connected0 = IDLE \<and>
   callState (handleWebSocketMessage (Parsed (JObj [(''type'', JStr ''incoming_call'')]))
                connected0) = INCOMING_RINGING"
  by code_simp

end
